theory Spec2Isabelle
  imports Main
begin

section \<open>Schema types used by the Apertus provider\<close>

text \<open>
  The provider file (package \<open>apertus\<close>) uses types of the \<open>schemas\<close> package. Only the
  fields that the provider or the table hooks read or write are kept. A Go \<open>map[string]string\<close>
  is a partial function, wrapped in \<open>option\<close> to keep the nil map apart from the empty one;
  a pointer \<open>*string\<close> is a \<open>string option\<close>.
\<close>

type_synonym ModelProvider = string

definition Apertus :: ModelProvider where
  "Apertus = ''apertus''"

datatype RequestType =
    ListModelsRequest
  | TextCompletionRequest
  | TextCompletionStreamRequest
  | ChatCompletionRequest
  | ChatCompletionStreamRequest
  | ResponsesRequest
  | ResponsesStreamRequest
  | EmbeddingRequest
  | SpeechRequest
  | SpeechStreamRequest
  | TranscriptionRequest
  | TranscriptionStreamRequest

record AzureKeyConfig =
  Endpoint :: string
  Deployments :: "(string \<rightharpoonup> string) option"
  APIVersion :: "string option"

record VertexKeyConfig =
  ProjectID :: string
  Region :: string
  AuthCredentials :: string

record BedrockKeyConfig =
  AccessKey :: string
  SecretKey :: string
  SessionToken :: "string option"
  Region :: "string option"
  ARN :: "string option"
  Deployments :: "(string \<rightharpoonup> string) option"

text \<open>
  Modelled from the spec: the declaration of \<open>schemas.ApertusKeyConfig\<close> is not part of the
  sources at hand. The spec gives the override value an optional endpoint and an optional
  mapping from public model names to backend model names; the code reads \<open>Endpoint\<close> as a
  plain string compared with \<open>""\<close>.
\<close>

record ApertusKeyConfig =
  Endpoint :: string
  ModelNameMappings :: "(string \<rightharpoonup> string) option"

record Key =
  Value :: string
  Models :: "string list"
  ApertusKeyConfig :: "ApertusKeyConfig option"

record CustomProviderConfig =
  CustomProviderKey :: string
  BaseProviderType :: ModelProvider
  RequestPathOverrides :: "(RequestType \<rightharpoonup> string) option"

record NetworkConfig =
  BaseURL :: string
  ExtraHeaders :: "(string \<rightharpoonup> string) option"
  DefaultRequestTimeoutInSeconds :: int
  MaxRetries :: int
  RetryBackoffInitial :: int
  RetryBackoffMax :: int

text \<open>
  \<open>schemas.ProviderConfig\<close>: the concurrency and proxy settings only configure the HTTP
  client and are left out. A field that a struct literal does not mention is its zero value.
\<close>

record ProviderConfig =
  NetworkConfig :: NetworkConfig
  SendBackRawResponse :: bool
  CustomProviderConfig :: "CustomProviderConfig option"

record BifrostRequest =
  Model :: string
  Input :: string

record BifrostExtraFields =
  Provider :: ModelProvider
  RequestType :: RequestType
  Latency :: int

record BifrostError =
  Message :: string
  ExtraFields :: BifrostExtraFields

record 'a BifrostResponse =
  Data :: 'a
  ExtraFields :: BifrostExtraFields

record Model_info =
  ID :: string
  OwnedBy :: "string option"

datatype BifrostStream =
    StreamResponse "string BifrostResponse"
  | StreamError BifrostError

type_synonym blocking_result = "string BifrostResponse option \<times> BifrostError option"
type_synonym stream_result = "BifrostStream list option \<times> BifrostError option"

section \<open>External collaborators\<close>

text \<open>
  Everything the provider calls outside its own file: the policy gate and the helpers of
  \<open>providerUtils\<close>, the shared OpenAI handlers, and the methods of a transient OpenAI provider
  built by \<open>openai.NewOpenAIProvider\<close>. They are parameters of the model. A handler acts
  on the outside world \<open>'w\<close> (the network) and returns its result with the new world. The
  HTTP client and the logger are not passed along. \<open>MapRange\<close> is the order in which the Go
  runtime iterates over the keys of a \<open>map[string]bool\<close>, which the language leaves open.
\<close>

record ('ctx, 'hook, 'w) externals =
  CheckAndSetDefaults :: "ProviderConfig \<Rightarrow> ProviderConfig"
  CheckOperationAllowed ::
    "ModelProvider \<Rightarrow> CustomProviderConfig option \<Rightarrow> RequestType \<Rightarrow> BifrostError option"
  GetProviderName :: "ModelProvider \<Rightarrow> CustomProviderConfig option \<Rightarrow> ModelProvider"
  GetRequestPath :: "'ctx \<Rightarrow> string \<Rightarrow> CustomProviderConfig option \<Rightarrow> RequestType \<Rightarrow> string"
  ShouldSendBackRawResponse :: "'ctx \<Rightarrow> bool \<Rightarrow> bool"
  MapRange :: "(string \<rightharpoonup> bool) \<Rightarrow> string list"
  HandleOpenAITextCompletionRequest ::
    "'ctx \<Rightarrow> string \<Rightarrow> BifrostRequest \<Rightarrow> Key \<Rightarrow> (string \<rightharpoonup> string) option \<Rightarrow> ModelProvider
      \<Rightarrow> bool \<Rightarrow> 'w \<Rightarrow> blocking_result \<times> 'w"
  HandleOpenAITextCompletionStreaming ::
    "'ctx \<Rightarrow> string \<Rightarrow> BifrostRequest \<Rightarrow> (string \<rightharpoonup> string) \<Rightarrow> (string \<rightharpoonup> string) option
      \<Rightarrow> bool \<Rightarrow> ModelProvider \<Rightarrow> 'hook \<Rightarrow> 'w \<Rightarrow> stream_result \<times> 'w"
  HandleOpenAIChatCompletionRequest ::
    "'ctx \<Rightarrow> string \<Rightarrow> BifrostRequest \<Rightarrow> Key \<Rightarrow> (string \<rightharpoonup> string) option \<Rightarrow> bool
      \<Rightarrow> ModelProvider \<Rightarrow> 'w \<Rightarrow> blocking_result \<times> 'w"
  HandleOpenAIChatCompletionStreaming ::
    "'ctx \<Rightarrow> string \<Rightarrow> BifrostRequest \<Rightarrow> (string \<rightharpoonup> string) \<Rightarrow> (string \<rightharpoonup> string) option
      \<Rightarrow> bool \<Rightarrow> ModelProvider \<Rightarrow> 'hook \<Rightarrow> 'w \<Rightarrow> stream_result \<times> 'w"
  HandleOpenAIResponsesRequest ::
    "'ctx \<Rightarrow> string \<Rightarrow> BifrostRequest \<Rightarrow> Key \<Rightarrow> (string \<rightharpoonup> string) option \<Rightarrow> bool
      \<Rightarrow> ModelProvider \<Rightarrow> 'w \<Rightarrow> blocking_result \<times> 'w"
  HandleOpenAIResponsesStreaming ::
    "'ctx \<Rightarrow> string \<Rightarrow> BifrostRequest \<Rightarrow> (string \<rightharpoonup> string) \<Rightarrow> (string \<rightharpoonup> string) option
      \<Rightarrow> bool \<Rightarrow> ModelProvider \<Rightarrow> 'hook \<Rightarrow> 'w \<Rightarrow> stream_result \<times> 'w"
  HandleOpenAIEmbeddingRequest ::
    "'ctx \<Rightarrow> string \<Rightarrow> BifrostRequest \<Rightarrow> Key \<Rightarrow> (string \<rightharpoonup> string) option \<Rightarrow> ModelProvider
      \<Rightarrow> bool \<Rightarrow> 'w \<Rightarrow> blocking_result \<times> 'w"
  OpenAI_Speech ::
    "ProviderConfig \<Rightarrow> 'ctx \<Rightarrow> Key \<Rightarrow> BifrostRequest \<Rightarrow> 'w \<Rightarrow> blocking_result \<times> 'w"
  OpenAI_SpeechStream ::
    "ProviderConfig \<Rightarrow> 'ctx \<Rightarrow> 'hook \<Rightarrow> Key \<Rightarrow> BifrostRequest \<Rightarrow> 'w \<Rightarrow> stream_result \<times> 'w"
  OpenAI_Transcription ::
    "ProviderConfig \<Rightarrow> 'ctx \<Rightarrow> Key \<Rightarrow> BifrostRequest \<Rightarrow> 'w \<Rightarrow> blocking_result \<times> 'w"
  OpenAI_TranscriptionStream ::
    "ProviderConfig \<Rightarrow> 'ctx \<Rightarrow> 'hook \<Rightarrow> Key \<Rightarrow> BifrostRequest \<Rightarrow> 'w \<Rightarrow> stream_result \<times> 'w"

section \<open>The Apertus provider\<close>

record ApertusProvider =
  networkConfig :: NetworkConfig
  sendBackRawResponse :: bool
  customProviderConfig :: "CustomProviderConfig option"

text \<open>\<open>strings.TrimRight(s, cutset)\<close>: \<open>s\<close> without its trailing characters that are in \<open>cutset\<close>.\<close>

definition TrimRight :: "string \<Rightarrow> string \<Rightarrow> string" where
  "TrimRight s cutset = rev (dropWhile (\<lambda>c. c \<in> set cutset) (rev s))"

definition NewApertusProvider ::
  "('ctx, 'hook, 'w) externals \<Rightarrow> ProviderConfig \<Rightarrow> ApertusProvider" where
  "NewApertusProvider E config0 =
    (let config = CheckAndSetDefaults E config0;
         nc = NetworkConfig config;
         nc1 = (if BaseURL nc = [] then nc\<lparr>BaseURL := ''https://api.openai.com''\<rparr> else nc);
         nc2 = nc1\<lparr>BaseURL := TrimRight (BaseURL nc1) ''/''\<rparr>
     in \<lparr>networkConfig = nc2,
         sendBackRawResponse = SendBackRawResponse config,
         customProviderConfig = CustomProviderConfig config\<rparr>)"

definition GetProviderKey :: "('ctx, 'hook, 'w) externals \<Rightarrow> ApertusProvider \<Rightarrow> ModelProvider" where
  "GetProviderKey E provider = GetProviderName E Apertus (customProviderConfig provider)"

definition getBaseURL :: "ApertusProvider \<Rightarrow> Key \<Rightarrow> string" where
  "getBaseURL provider key =
    (case Key.ApertusKeyConfig key of
       Some c \<Rightarrow>
         if ApertusKeyConfig.Endpoint c \<noteq> [] then TrimRight (ApertusKeyConfig.Endpoint c) ''/''
         else BaseURL (networkConfig provider)
     | None \<Rightarrow> BaseURL (networkConfig provider))"

definition buildRequestURL ::
  "('ctx, 'hook, 'w) externals \<Rightarrow> ApertusProvider \<Rightarrow> 'ctx \<Rightarrow> Key \<Rightarrow> string \<Rightarrow> RequestType \<Rightarrow> string" where
  "buildRequestURL E provider ctx key defaultPath requestType =
    getBaseURL provider key
      @ GetRequestPath E ctx defaultPath (customProviderConfig provider) requestType"

text \<open>A string that holds nothing but slashes (the empty string is one).\<close>

definition only_slashes :: "string \<Rightarrow> bool" where
  "only_slashes s = list_all (\<lambda>c. c = CHR ''/'') s"

section \<open>Dispatch entry points\<close>

text \<open>
  Every entry point asks the policy gate first and returns its error when it rejects. The
  result is the pair of Go return values (\<open>nil\<close> is \<open>None\<close>) with the world after the call.
\<close>

text \<open>The two nested loops of \<open>ListModels\<close> that fill the set of model names.\<close>

definition modelSet_of :: "Key list \<Rightarrow> (string \<rightharpoonup> bool)" where
  "modelSet_of keys =
    foldl (\<lambda>m key. foldl (\<lambda>m model. m(model \<mapsto> True)) m (Key.Models key)) Map.empty keys"

definition ListModels ::
  "('ctx, 'hook, 'w) externals \<Rightarrow> ApertusProvider \<Rightarrow> 'ctx \<Rightarrow> Key list \<Rightarrow> 'r \<Rightarrow> 'w
    \<Rightarrow> (Model_info list BifrostResponse option \<times> BifrostError option) \<times> 'w" where
  "ListModels E provider ctx keys request w =
    (case CheckOperationAllowed E Apertus (customProviderConfig provider) ListModelsRequest of
       Some err \<Rightarrow> ((None, Some err), w)
     | None \<Rightarrow>
        (let providerName = GetProviderKey E provider;
             modelSet = modelSet_of keys;
             models = MapRange E modelSet;
             modelInfos = map (\<lambda>model. \<lparr>ID = providerName @ ''/'' @ model,
                                          OwnedBy = Some ''system''\<rparr>) models;
             response = \<lparr>Data = modelInfos,
                         ExtraFields = \<lparr>Provider = providerName,
                                        RequestType = ListModelsRequest,
                                        Latency = 0\<rparr>\<rparr>
         in ((Some response, None), w)))"

definition TextCompletion ::
  "('ctx, 'hook, 'w) externals \<Rightarrow> ApertusProvider \<Rightarrow> 'ctx \<Rightarrow> Key \<Rightarrow> BifrostRequest \<Rightarrow> 'w
    \<Rightarrow> blocking_result \<times> 'w" where
  "TextCompletion E provider ctx key request w =
    (case CheckOperationAllowed E Apertus (customProviderConfig provider) TextCompletionRequest of
       Some err \<Rightarrow> ((None, Some err), w)
     | None \<Rightarrow>
        HandleOpenAITextCompletionRequest E ctx
          (buildRequestURL E provider ctx key ''/v1/completions'' TextCompletionRequest)
          request key (ExtraHeaders (networkConfig provider)) (GetProviderKey E provider)
          (ShouldSendBackRawResponse E ctx (sendBackRawResponse provider)) w)"

definition TextCompletionStream ::
  "('ctx, 'hook, 'w) externals \<Rightarrow> ApertusProvider \<Rightarrow> 'ctx \<Rightarrow> 'hook \<Rightarrow> Key \<Rightarrow> BifrostRequest \<Rightarrow> 'w
    \<Rightarrow> stream_result \<times> 'w" where
  "TextCompletionStream E provider ctx postHookRunner key request w =
    (case CheckOperationAllowed E Apertus (customProviderConfig provider)
            TextCompletionStreamRequest of
       Some err \<Rightarrow> ((None, Some err), w)
     | None \<Rightarrow>
        HandleOpenAITextCompletionStreaming E ctx
          (buildRequestURL E provider ctx key ''/v1/completions'' TextCompletionStreamRequest)
          request [''Authorization'' \<mapsto> ''Bearer '' @ Key.Value key]
          (ExtraHeaders (networkConfig provider))
          (ShouldSendBackRawResponse E ctx (sendBackRawResponse provider))
          (GetProviderKey E provider) postHookRunner w)"

definition ChatCompletion ::
  "('ctx, 'hook, 'w) externals \<Rightarrow> ApertusProvider \<Rightarrow> 'ctx \<Rightarrow> Key \<Rightarrow> BifrostRequest \<Rightarrow> 'w
    \<Rightarrow> blocking_result \<times> 'w" where
  "ChatCompletion E provider ctx key request w =
    (case CheckOperationAllowed E Apertus (customProviderConfig provider) ChatCompletionRequest of
       Some err \<Rightarrow> ((None, Some err), w)
     | None \<Rightarrow>
        HandleOpenAIChatCompletionRequest E ctx
          (buildRequestURL E provider ctx key ''/v1/chat/completions'' ChatCompletionRequest)
          request key (ExtraHeaders (networkConfig provider))
          (ShouldSendBackRawResponse E ctx (sendBackRawResponse provider))
          (GetProviderKey E provider) w)"

definition ChatCompletionStream ::
  "('ctx, 'hook, 'w) externals \<Rightarrow> ApertusProvider \<Rightarrow> 'ctx \<Rightarrow> 'hook \<Rightarrow> Key \<Rightarrow> BifrostRequest \<Rightarrow> 'w
    \<Rightarrow> stream_result \<times> 'w" where
  "ChatCompletionStream E provider ctx postHookRunner key request w =
    (case CheckOperationAllowed E Apertus (customProviderConfig provider)
            ChatCompletionStreamRequest of
       Some err \<Rightarrow> ((None, Some err), w)
     | None \<Rightarrow>
        HandleOpenAIChatCompletionStreaming E ctx
          (buildRequestURL E provider ctx key ''/v1/chat/completions'' ChatCompletionStreamRequest)
          request [''Authorization'' \<mapsto> ''Bearer '' @ Key.Value key]
          (ExtraHeaders (networkConfig provider))
          (ShouldSendBackRawResponse E ctx (sendBackRawResponse provider))
          (GetProviderKey E provider) postHookRunner w)"

definition Responses ::
  "('ctx, 'hook, 'w) externals \<Rightarrow> ApertusProvider \<Rightarrow> 'ctx \<Rightarrow> Key \<Rightarrow> BifrostRequest \<Rightarrow> 'w
    \<Rightarrow> blocking_result \<times> 'w" where
  "Responses E provider ctx key request w =
    (case CheckOperationAllowed E Apertus (customProviderConfig provider) ResponsesRequest of
       Some err \<Rightarrow> ((None, Some err), w)
     | None \<Rightarrow>
        HandleOpenAIResponsesRequest E ctx
          (buildRequestURL E provider ctx key ''/v1/responses'' ResponsesRequest)
          request key (ExtraHeaders (networkConfig provider))
          (ShouldSendBackRawResponse E ctx (sendBackRawResponse provider))
          (GetProviderKey E provider) w)"

definition ResponsesStream ::
  "('ctx, 'hook, 'w) externals \<Rightarrow> ApertusProvider \<Rightarrow> 'ctx \<Rightarrow> 'hook \<Rightarrow> Key \<Rightarrow> BifrostRequest \<Rightarrow> 'w
    \<Rightarrow> stream_result \<times> 'w" where
  "ResponsesStream E provider ctx postHookRunner key request w =
    (case CheckOperationAllowed E Apertus (customProviderConfig provider)
            ResponsesStreamRequest of
       Some err \<Rightarrow> ((None, Some err), w)
     | None \<Rightarrow>
        HandleOpenAIResponsesStreaming E ctx
          (buildRequestURL E provider ctx key ''/v1/responses'' ResponsesStreamRequest)
          request [''Authorization'' \<mapsto> ''Bearer '' @ Key.Value key]
          (ExtraHeaders (networkConfig provider))
          (ShouldSendBackRawResponse E ctx (sendBackRawResponse provider))
          (GetProviderKey E provider) postHookRunner w)"

definition Embedding ::
  "('ctx, 'hook, 'w) externals \<Rightarrow> ApertusProvider \<Rightarrow> 'ctx \<Rightarrow> Key \<Rightarrow> BifrostRequest \<Rightarrow> 'w
    \<Rightarrow> blocking_result \<times> 'w" where
  "Embedding E provider ctx key request w =
    (case CheckOperationAllowed E Apertus (customProviderConfig provider) EmbeddingRequest of
       Some err \<Rightarrow> ((None, Some err), w)
     | None \<Rightarrow>
        HandleOpenAIEmbeddingRequest E ctx
          (buildRequestURL E provider ctx key ''/v1/embeddings'' EmbeddingRequest)
          request key (ExtraHeaders (networkConfig provider)) (GetProviderKey E provider)
          (ShouldSendBackRawResponse E ctx (sendBackRawResponse provider)) w)"

text \<open>
  The configuration of the transient OpenAI provider that the speech and transcription entry
  points build: the same struct literal in all four of them. It names the network settings
  and \<open>SendBackRawResponse\<close>; the custom provider configuration is not copied.
\<close>

definition tempConfig :: "ApertusProvider \<Rightarrow> Key \<Rightarrow> ProviderConfig" where
  "tempConfig provider key =
    \<lparr>NetworkConfig =
       \<lparr>BaseURL = getBaseURL provider key,
        ExtraHeaders = ExtraHeaders (networkConfig provider),
        DefaultRequestTimeoutInSeconds = DefaultRequestTimeoutInSeconds (networkConfig provider),
        MaxRetries = MaxRetries (networkConfig provider),
        RetryBackoffInitial = RetryBackoffInitial (networkConfig provider),
        RetryBackoffMax = RetryBackoffMax (networkConfig provider)\<rparr>,
      SendBackRawResponse = sendBackRawResponse provider,
      CustomProviderConfig = None\<rparr>"

definition Speech ::
  "('ctx, 'hook, 'w) externals \<Rightarrow> ApertusProvider \<Rightarrow> 'ctx \<Rightarrow> Key \<Rightarrow> BifrostRequest \<Rightarrow> 'w
    \<Rightarrow> blocking_result \<times> 'w" where
  "Speech E provider ctx key request w =
    (case CheckOperationAllowed E Apertus (customProviderConfig provider) SpeechRequest of
       Some err \<Rightarrow> ((None, Some err), w)
     | None \<Rightarrow>
        (case OpenAI_Speech E (tempConfig provider key) ctx key request w of
           ((response, Some err), w') \<Rightarrow>
             ((None, Some (err\<lparr>BifrostError.ExtraFields :=
                  (BifrostError.ExtraFields err)\<lparr>Provider := GetProviderKey E provider\<rparr>\<rparr>)), w')
         | ((Some response, None), w') \<Rightarrow>
             ((Some (response\<lparr>BifrostResponse.ExtraFields :=
                  (BifrostResponse.ExtraFields response)\<lparr>Provider := GetProviderKey E provider\<rparr>\<rparr>),
               None), w')
         | ((None, None), w') \<Rightarrow> ((None, None), w')))"

definition SpeechStream ::
  "('ctx, 'hook, 'w) externals \<Rightarrow> ApertusProvider \<Rightarrow> 'ctx \<Rightarrow> 'hook \<Rightarrow> Key \<Rightarrow> BifrostRequest \<Rightarrow> 'w
    \<Rightarrow> stream_result \<times> 'w" where
  "SpeechStream E provider ctx postHookRunner key request w =
    (case CheckOperationAllowed E Apertus (customProviderConfig provider) SpeechStreamRequest of
       Some err \<Rightarrow> ((None, Some err), w)
     | None \<Rightarrow> OpenAI_SpeechStream E (tempConfig provider key) ctx postHookRunner key request w)"

definition Transcription ::
  "('ctx, 'hook, 'w) externals \<Rightarrow> ApertusProvider \<Rightarrow> 'ctx \<Rightarrow> Key \<Rightarrow> BifrostRequest \<Rightarrow> 'w
    \<Rightarrow> blocking_result \<times> 'w" where
  "Transcription E provider ctx key request w =
    (case CheckOperationAllowed E Apertus (customProviderConfig provider) TranscriptionRequest of
       Some err \<Rightarrow> ((None, Some err), w)
     | None \<Rightarrow>
        (case OpenAI_Transcription E (tempConfig provider key) ctx key request w of
           ((response, Some err), w') \<Rightarrow>
             ((None, Some (err\<lparr>BifrostError.ExtraFields :=
                  (BifrostError.ExtraFields err)\<lparr>Provider := GetProviderKey E provider\<rparr>\<rparr>)), w')
         | ((Some response, None), w') \<Rightarrow>
             ((Some (response\<lparr>BifrostResponse.ExtraFields :=
                  (BifrostResponse.ExtraFields response)\<lparr>Provider := GetProviderKey E provider\<rparr>\<rparr>),
               None), w')
         | ((None, None), w') \<Rightarrow> ((None, None), w')))"

definition TranscriptionStream ::
  "('ctx, 'hook, 'w) externals \<Rightarrow> ApertusProvider \<Rightarrow> 'ctx \<Rightarrow> 'hook \<Rightarrow> Key \<Rightarrow> BifrostRequest \<Rightarrow> 'w
    \<Rightarrow> stream_result \<times> 'w" where
  "TranscriptionStream E provider ctx postHookRunner key request w =
    (case CheckOperationAllowed E Apertus (customProviderConfig provider)
            TranscriptionStreamRequest of
       Some err \<Rightarrow> ((None, Some err), w)
     | None \<Rightarrow>
        OpenAI_TranscriptionStream E (tempConfig provider key) ctx postHookRunner key request w)"

section \<open>The key table and its hooks\<close>

text \<open>
  A Go \<open>error\<close> is a value carrying its message. A hook mutates the row in place and returns
  an error or \<open>nil\<close>: the model returns the row as the hook leaves it together with the
  error, so the writes made before an early \<open>return err\<close> stay visible.
\<close>

datatype error = Error string

definition andThen :: "'s \<times> error option \<Rightarrow> ('s \<Rightarrow> 's \<times> error option) \<Rightarrow> 's \<times> error option" where
  "andThen r f = (case r of (s, None) \<Rightarrow> f s | (s, Some err) \<Rightarrow> (s, Some err))"

text \<open>
  The JSON libraries (\<open>encoding/json\<close> and \<open>sonic\<close>) are parameters. Unmarshalling a model
  list writes into the slice the row already holds, so it takes the old value and returns the
  new one even when it fails; unmarshalling a map starts from a fresh nil map.
\<close>

record json_lib =
  json_Marshal_strings :: "string list \<Rightarrow> error + string"
  json_Marshal_map :: "(string \<rightharpoonup> string) \<Rightarrow> error + string"
  sonic_Marshal_map :: "(string \<rightharpoonup> string) \<Rightarrow> error + string"
  json_Unmarshal_strings :: "string \<Rightarrow> string list option \<Rightarrow> string list option \<times> error option"
  json_Unmarshal_map :: "string \<Rightarrow> error + (string \<rightharpoonup> string) option"

text \<open>
  \<open>TableKey\<close>: the columns that the hooks read or write, then the virtual fields
  (\<open>gorm:"-"\<close>). The identifying columns (id, name, provider, key id, value, weight and the
  timestamps) are untouched by the hooks and left out.
\<close>

record TableKey =
  ModelsJSON :: string
  AzureEndpoint :: "string option"
  AzureAPIVersion :: "string option"
  AzureDeploymentsJSON :: "string option"
  VertexProjectID :: "string option"
  VertexRegion :: "string option"
  VertexAuthCredentials :: "string option"
  BedrockAccessKey :: "string option"
  BedrockSecretKey :: "string option"
  BedrockSessionToken :: "string option"
  BedrockRegion :: "string option"
  BedrockARN :: "string option"
  BedrockDeploymentsJSON :: "string option"
  ApertusEndpoint :: "string option"
  Models :: "string list option"
  AzureKeyConfig :: "AzureKeyConfig option"
  VertexKeyConfig :: "VertexKeyConfig option"
  BedrockKeyConfig :: "BedrockKeyConfig option"
  ApertusKeyConfig :: "ApertusKeyConfig option"

definition BeforeSave_Models :: "json_lib \<Rightarrow> TableKey \<Rightarrow> TableKey \<times> error option" where
  "BeforeSave_Models J k =
    (case TableKey.Models k of
       Some ms \<Rightarrow>
         (case json_Marshal_strings J ms of
            Inl err \<Rightarrow> (k, Some err)
          | Inr data \<Rightarrow> (k\<lparr>ModelsJSON := data\<rparr>, None))
     | None \<Rightarrow> (k\<lparr>ModelsJSON := ''[]''\<rparr>, None))"

definition BeforeSave_Azure :: "json_lib \<Rightarrow> TableKey \<Rightarrow> TableKey \<times> error option" where
  "BeforeSave_Azure J k =
    (case AzureKeyConfig k of
       Some c \<Rightarrow>
         (let k1 = k\<lparr>AzureEndpoint :=
                      (if AzureKeyConfig.Endpoint c \<noteq> [] then Some (AzureKeyConfig.Endpoint c)
                       else None)\<rparr>;
              k2 = k1\<lparr>AzureAPIVersion := APIVersion c\<rparr>
          in (case AzureKeyConfig.Deployments c of
                Some d \<Rightarrow>
                  (case json_Marshal_map J d of
                     Inl err \<Rightarrow> (k2, Some err)
                   | Inr data \<Rightarrow> (k2\<lparr>AzureDeploymentsJSON := Some data\<rparr>, None))
              | None \<Rightarrow> (k2\<lparr>AzureDeploymentsJSON := None\<rparr>, None)))
     | None \<Rightarrow>
         (k\<lparr>AzureEndpoint := None, AzureAPIVersion := None, AzureDeploymentsJSON := None\<rparr>,
          None))"

definition BeforeSave_Vertex :: "TableKey \<Rightarrow> TableKey" where
  "BeforeSave_Vertex k =
    (case VertexKeyConfig k of
       Some c \<Rightarrow>
         k\<lparr>VertexProjectID := (if ProjectID c \<noteq> [] then Some (ProjectID c) else None),
           VertexRegion :=
             (if VertexKeyConfig.Region c \<noteq> [] then Some (VertexKeyConfig.Region c) else None),
           VertexAuthCredentials :=
             (if AuthCredentials c \<noteq> [] then Some (AuthCredentials c) else None)\<rparr>
     | None \<Rightarrow>
         k\<lparr>VertexProjectID := None, VertexRegion := None, VertexAuthCredentials := None\<rparr>)"

definition BeforeSave_Bedrock :: "json_lib \<Rightarrow> TableKey \<Rightarrow> TableKey \<times> error option" where
  "BeforeSave_Bedrock J k =
    (case BedrockKeyConfig k of
       Some c \<Rightarrow>
         (let k1 = k\<lparr>BedrockAccessKey := (if AccessKey c \<noteq> [] then Some (AccessKey c) else None),
                     BedrockSecretKey := (if SecretKey c \<noteq> [] then Some (SecretKey c) else None),
                     BedrockSessionToken := SessionToken c,
                     BedrockRegion := BedrockKeyConfig.Region c,
                     BedrockARN := ARN c\<rparr>
          in (case BedrockKeyConfig.Deployments c of
                Some d \<Rightarrow>
                  (case sonic_Marshal_map J d of
                     Inl err \<Rightarrow> (k1, Some err)
                   | Inr data \<Rightarrow> (k1\<lparr>BedrockDeploymentsJSON := Some data\<rparr>, None))
              | None \<Rightarrow> (k1\<lparr>BedrockDeploymentsJSON := None\<rparr>, None)))
     | None \<Rightarrow>
         (k\<lparr>BedrockAccessKey := None, BedrockSecretKey := None, BedrockSessionToken := None,
            BedrockRegion := None, BedrockARN := None, BedrockDeploymentsJSON := None\<rparr>,
          None))"

definition BeforeSave_Apertus :: "TableKey \<Rightarrow> TableKey" where
  "BeforeSave_Apertus k =
    (case TableKey.ApertusKeyConfig k of
       Some c \<Rightarrow>
         k\<lparr>ApertusEndpoint :=
             (if ApertusKeyConfig.Endpoint c \<noteq> [] then Some (ApertusKeyConfig.Endpoint c)
              else None)\<rparr>
     | None \<Rightarrow> k\<lparr>ApertusEndpoint := None\<rparr>)"

definition TableKey_BeforeSave :: "json_lib \<Rightarrow> TableKey \<Rightarrow> TableKey \<times> error option" where
  "TableKey_BeforeSave J k =
    andThen (andThen (andThen (andThen (BeforeSave_Models J k)
      (BeforeSave_Azure J))
      (\<lambda>k. (BeforeSave_Vertex k, None)))
      (BeforeSave_Bedrock J))
      (\<lambda>k. (BeforeSave_Apertus k, None))"

definition AfterFind_Models :: "json_lib \<Rightarrow> TableKey \<Rightarrow> TableKey \<times> error option" where
  "AfterFind_Models J k =
    (if ModelsJSON k \<noteq> [] then
       (case json_Unmarshal_strings J (ModelsJSON k) (TableKey.Models k) of
          (ms, err) \<Rightarrow> (k\<lparr>TableKey.Models := ms\<rparr>, err))
     else (k, None))"

definition AfterFind_Azure :: "json_lib \<Rightarrow> TableKey \<Rightarrow> TableKey \<times> error option" where
  "AfterFind_Azure J k =
    (if AzureEndpoint k \<noteq> None then
       (let azureConfig0 = \<lparr>AzureKeyConfig.Endpoint = [], Deployments = None,
                            APIVersion = AzureAPIVersion k\<rparr>;
            azureConfig = (case AzureEndpoint k of
                             Some e \<Rightarrow> azureConfig0\<lparr>AzureKeyConfig.Endpoint := e\<rparr>
                           | None \<Rightarrow> azureConfig0)
        in (case AzureDeploymentsJSON k of
              Some js \<Rightarrow>
                (case json_Unmarshal_map J js of
                   Inl err \<Rightarrow> (k, Some err)
                 | Inr deployments \<Rightarrow>
                     (k\<lparr>AzureKeyConfig :=
                          Some (azureConfig\<lparr>AzureKeyConfig.Deployments := deployments\<rparr>)\<rparr>, None))
            | None \<Rightarrow>
                (k\<lparr>AzureKeyConfig :=
                     Some (azureConfig\<lparr>AzureKeyConfig.Deployments := None\<rparr>)\<rparr>, None)))
     else (k, None))"

definition AfterFind_Vertex :: "TableKey \<Rightarrow> TableKey" where
  "AfterFind_Vertex k =
    (if VertexProjectID k \<noteq> None \<or> VertexRegion k \<noteq> None \<or> VertexAuthCredentials k \<noteq> None then
       k\<lparr>VertexKeyConfig := Some
           \<lparr>ProjectID = (case VertexProjectID k of Some v \<Rightarrow> v | None \<Rightarrow> []),
            Region = (case VertexRegion k of Some v \<Rightarrow> v | None \<Rightarrow> []),
            AuthCredentials = (case VertexAuthCredentials k of Some v \<Rightarrow> v | None \<Rightarrow> [])\<rparr>\<rparr>
     else k)"

definition AfterFind_Bedrock :: "json_lib \<Rightarrow> TableKey \<Rightarrow> TableKey \<times> error option" where
  "AfterFind_Bedrock J k =
    (if BedrockAccessKey k \<noteq> None \<or> BedrockSecretKey k \<noteq> None \<or> BedrockSessionToken k \<noteq> None
        \<or> BedrockRegion k \<noteq> None \<or> BedrockARN k \<noteq> None
        \<or> (case BedrockDeploymentsJSON k of Some js \<Rightarrow> js \<noteq> [] | None \<Rightarrow> False) then
       (let bedrockConfig =
              \<lparr>AccessKey = (case BedrockAccessKey k of Some v \<Rightarrow> v | None \<Rightarrow> []),
               SecretKey = (case BedrockSecretKey k of Some v \<Rightarrow> v | None \<Rightarrow> []),
               SessionToken = BedrockSessionToken k,
               Region = BedrockRegion k,
               ARN = BedrockARN k,
               Deployments = None\<rparr>
        in (case BedrockDeploymentsJSON k of
              Some js \<Rightarrow>
                (case json_Unmarshal_map J js of
                   Inl err \<Rightarrow> (k, Some err)
                 | Inr deployments \<Rightarrow>
                     (k\<lparr>BedrockKeyConfig :=
                          Some (bedrockConfig\<lparr>BedrockKeyConfig.Deployments := deployments\<rparr>)\<rparr>,
                      None))
            | None \<Rightarrow> (k\<lparr>BedrockKeyConfig := Some bedrockConfig\<rparr>, None)))
     else (k, None))"

definition AfterFind_Apertus :: "TableKey \<Rightarrow> TableKey" where
  "AfterFind_Apertus k =
    (case ApertusEndpoint k of
       Some e \<Rightarrow>
         k\<lparr>TableKey.ApertusKeyConfig :=
             Some \<lparr>ApertusKeyConfig.Endpoint = e, ModelNameMappings = None\<rparr>\<rparr>
     | None \<Rightarrow> k)"

definition TableKey_AfterFind :: "json_lib \<Rightarrow> TableKey \<Rightarrow> TableKey \<times> error option" where
  "TableKey_AfterFind J k =
    andThen (andThen (andThen (andThen (AfterFind_Models J k)
      (AfterFind_Azure J))
      (\<lambda>k. (AfterFind_Vertex k, None)))
      (AfterFind_Bedrock J))
      (\<lambda>k. (AfterFind_Apertus k, None))"

text \<open>
  What a later query scans into a fresh struct: the columns as they were written, the
  virtual fields at their zero value.
\<close>

definition scanned :: "TableKey \<Rightarrow> TableKey" where
  "scanned k = k\<lparr>TableKey.Models := None, AzureKeyConfig := None, VertexKeyConfig := None,
                 BedrockKeyConfig := None, TableKey.ApertusKeyConfig := None\<rparr>"

section \<open>The provider table and its hooks\<close>

text \<open>
  \<open>TableProvider\<close>: four text columns holding JSON and the four virtual fields they are
  computed from. The concurrency and proxy configurations stay abstract (\<open>'b\<close>, \<open>'p\<close>).
  Unmarshalling starts from a fresh zero struct, so its result depends on the text alone.
\<close>

record ('b, 'p) provider_json =
  Marshal_NetworkConfig :: "NetworkConfig \<Rightarrow> error + string"
  Marshal_ConcurrencyAndBufferSize :: "'b \<Rightarrow> error + string"
  Marshal_ProxyConfig :: "'p \<Rightarrow> error + string"
  Marshal_CustomProviderConfig :: "CustomProviderConfig \<Rightarrow> error + string"
  Unmarshal_NetworkConfig :: "string \<Rightarrow> error + NetworkConfig"
  Unmarshal_ConcurrencyAndBufferSize :: "string \<Rightarrow> error + 'b"
  Unmarshal_ProxyConfig :: "string \<Rightarrow> error + 'p"
  Unmarshal_CustomProviderConfig :: "string \<Rightarrow> error + CustomProviderConfig"

record ('b, 'p) TableProvider =
  NetworkConfigJSON :: string
  ConcurrencyBufferJSON :: string
  ProxyConfigJSON :: string
  CustomProviderConfigJSON :: string
  NetworkConfig :: "NetworkConfig option"
  ConcurrencyAndBufferSize :: "'b option"
  ProxyConfig :: "'p option"
  CustomProviderConfig :: "CustomProviderConfig option"

definition TableProvider_BeforeSave ::
  "('b, 'p) provider_json \<Rightarrow> ('b, 'p) TableProvider \<Rightarrow> ('b, 'p) TableProvider \<times> error option" where
  "TableProvider_BeforeSave J p0 =
    andThen (andThen (andThen (andThen
      (case TableProvider.NetworkConfig p0 of
         Some c \<Rightarrow>
           (case Marshal_NetworkConfig J c of
              Inl err \<Rightarrow> (p0, Some err)
            | Inr data \<Rightarrow> (p0\<lparr>NetworkConfigJSON := data\<rparr>, None))
       | None \<Rightarrow> (p0, None))
      (\<lambda>p. case ConcurrencyAndBufferSize p of
         Some c \<Rightarrow>
           (case Marshal_ConcurrencyAndBufferSize J c of
              Inl err \<Rightarrow> (p, Some err)
            | Inr data \<Rightarrow> (p\<lparr>ConcurrencyBufferJSON := data\<rparr>, None))
       | None \<Rightarrow> (p, None)))
      (\<lambda>p. case ProxyConfig p of
         Some c \<Rightarrow>
           (case Marshal_ProxyConfig J c of
              Inl err \<Rightarrow> (p, Some err)
            | Inr data \<Rightarrow> (p\<lparr>ProxyConfigJSON := data\<rparr>, None))
       | None \<Rightarrow> (p, None)))
      (\<lambda>p. case TableProvider.CustomProviderConfig p of
         Some c \<Rightarrow>
           (if BaseProviderType c = [] then
              (p, Some (Error
                 ''base_provider_type is required when custom_provider_config is set''))
            else (p, None))
       | None \<Rightarrow> (p, None)))
      (\<lambda>p. case TableProvider.CustomProviderConfig p of
         Some c \<Rightarrow>
           (case Marshal_CustomProviderConfig J c of
              Inl err \<Rightarrow> (p, Some err)
            | Inr data \<Rightarrow> (p\<lparr>CustomProviderConfigJSON := data\<rparr>, None))
       | None \<Rightarrow> (p, None))"

definition TableProvider_AfterFind ::
  "('b, 'p) provider_json \<Rightarrow> ('b, 'p) TableProvider \<Rightarrow> ('b, 'p) TableProvider \<times> error option" where
  "TableProvider_AfterFind J p0 =
    andThen (andThen (andThen
      (if NetworkConfigJSON p0 \<noteq> [] then
         (case Unmarshal_NetworkConfig J (NetworkConfigJSON p0) of
            Inl err \<Rightarrow> (p0, Some err)
          | Inr config \<Rightarrow> (p0\<lparr>TableProvider.NetworkConfig := Some config\<rparr>, None))
       else (p0, None))
      (\<lambda>p. if ConcurrencyBufferJSON p \<noteq> [] then
         (case Unmarshal_ConcurrencyAndBufferSize J (ConcurrencyBufferJSON p) of
            Inl err \<Rightarrow> (p, Some err)
          | Inr config \<Rightarrow> (p\<lparr>ConcurrencyAndBufferSize := Some config\<rparr>, None))
       else (p, None)))
      (\<lambda>p. if ProxyConfigJSON p \<noteq> [] then
         (case Unmarshal_ProxyConfig J (ProxyConfigJSON p) of
            Inl err \<Rightarrow> (p, Some err)
          | Inr proxyConfig \<Rightarrow> (p\<lparr>ProxyConfig := Some proxyConfig\<rparr>, None))
       else (p, None)))
      (\<lambda>p. if CustomProviderConfigJSON p \<noteq> [] then
         (case Unmarshal_CustomProviderConfig J (CustomProviderConfigJSON p) of
            Inl err \<Rightarrow> (p, Some err)
          | Inr customConfig \<Rightarrow>
              (p\<lparr>TableProvider.CustomProviderConfig := Some customConfig\<rparr>, None))
       else (p, None))"

text \<open>A provider row as a later query scans it: the columns, the virtual fields nil.\<close>

definition scanned_provider :: "('b, 'p) TableProvider \<Rightarrow> ('b, 'p) TableProvider" where
  "scanned_provider p = p\<lparr>TableProvider.NetworkConfig := None, ConcurrencyAndBufferSize := None,
                           ProxyConfig := None, TableProvider.CustomProviderConfig := None\<rparr>"

section \<open>Views of the key-table hooks\<close>

text \<open>
  What each block of \<open>AfterFind\<close> assigns and the error it returns, as functions of the row
  it starts from, and the texts that \<open>BeforeSave\<close> writes. They are proved below to be what
  the hooks compute, and let the proofs treat one column group at a time.
\<close>

definition models_decoded :: "json_lib \<Rightarrow> TableKey \<Rightarrow> string list option \<times> error option" where
  "models_decoded J k =
    (if ModelsJSON k \<noteq> [] then json_Unmarshal_strings J (ModelsJSON k) (TableKey.Models k)
     else (TableKey.Models k, None))"

definition deployments_decoded :: "json_lib \<Rightarrow> string option \<Rightarrow> error + (string \<rightharpoonup> string) option" where
  "deployments_decoded J column =
    (case column of Some js \<Rightarrow> json_Unmarshal_map J js | None \<Rightarrow> Inr None)"

definition azure_decoded :: "json_lib \<Rightarrow> TableKey \<Rightarrow> error + AzureKeyConfig option" where
  "azure_decoded J k =
    (case AzureEndpoint k of
       None \<Rightarrow> Inr (AzureKeyConfig k)
     | Some e \<Rightarrow>
        (case deployments_decoded J (AzureDeploymentsJSON k) of
           Inl err \<Rightarrow> Inl err
         | Inr d \<Rightarrow> Inr (Some \<lparr>AzureKeyConfig.Endpoint = e, Deployments = d,
                               APIVersion = AzureAPIVersion k\<rparr>)))"

definition vertex_decoded :: "TableKey \<Rightarrow> VertexKeyConfig option" where
  "vertex_decoded k =
    (if VertexProjectID k \<noteq> None \<or> VertexRegion k \<noteq> None \<or> VertexAuthCredentials k \<noteq> None then
       Some \<lparr>ProjectID = (case VertexProjectID k of Some v \<Rightarrow> v | None \<Rightarrow> []),
             Region = (case VertexRegion k of Some v \<Rightarrow> v | None \<Rightarrow> []),
             AuthCredentials = (case VertexAuthCredentials k of Some v \<Rightarrow> v | None \<Rightarrow> [])\<rparr>
     else VertexKeyConfig k)"

definition bedrock_present :: "TableKey \<Rightarrow> bool" where
  "bedrock_present k \<longleftrightarrow>
    BedrockAccessKey k \<noteq> None \<or> BedrockSecretKey k \<noteq> None \<or> BedrockSessionToken k \<noteq> None
    \<or> BedrockRegion k \<noteq> None \<or> BedrockARN k \<noteq> None
    \<or> (case BedrockDeploymentsJSON k of Some js \<Rightarrow> js \<noteq> [] | None \<Rightarrow> False)"

definition bedrock_decoded :: "json_lib \<Rightarrow> TableKey \<Rightarrow> error + BedrockKeyConfig option" where
  "bedrock_decoded J k =
    (if bedrock_present k then
       (case deployments_decoded J (BedrockDeploymentsJSON k) of
          Inl err \<Rightarrow> Inl err
        | Inr d \<Rightarrow>
            Inr (Some \<lparr>AccessKey = (case BedrockAccessKey k of Some v \<Rightarrow> v | None \<Rightarrow> []),
                       SecretKey = (case BedrockSecretKey k of Some v \<Rightarrow> v | None \<Rightarrow> []),
                       SessionToken = BedrockSessionToken k,
                       Region = BedrockRegion k,
                       ARN = BedrockARN k,
                       Deployments = d\<rparr>))
     else Inr (BedrockKeyConfig k))"

definition apertus_decoded :: "TableKey \<Rightarrow> ApertusKeyConfig option" where
  "apertus_decoded k =
    (case ApertusEndpoint k of
       Some e \<Rightarrow> Some \<lparr>ApertusKeyConfig.Endpoint = e, ModelNameMappings = None\<rparr>
     | None \<Rightarrow> TableKey.ApertusKeyConfig k)"

definition nonempty :: "string \<Rightarrow> string option" where
  "nonempty s = (if s \<noteq> [] then Some s else None)"

definition models_encoded :: "json_lib \<Rightarrow> TableKey \<Rightarrow> error + string" where
  "models_encoded J k =
    (case TableKey.Models k of Some ms \<Rightarrow> json_Marshal_strings J ms | None \<Rightarrow> Inr ''[]'')"

definition deployments_encoded ::
  "((string \<rightharpoonup> string) \<Rightarrow> error + string) \<Rightarrow> (string \<rightharpoonup> string) option \<Rightarrow> error + string option" where
  "deployments_encoded marshal deployments =
    (case deployments of
       Some d \<Rightarrow> (case marshal d of Inl err \<Rightarrow> Inl err | Inr data \<Rightarrow> Inr (Some data))
     | None \<Rightarrow> Inr None)"

text \<open>
  The normalization rule of the spec, in its words: "empty" and "absent" collapse. A pointer
  to the empty string counts as the nil pointer and an empty map as the nil map, and an
  override value whose every field is then empty or absent counts as the absent value.
\<close>

definition normalized_pointer :: "string option \<Rightarrow> string option" where
  "normalized_pointer p = (if p = Some [] then None else p)"

definition normalized_map :: "(string \<rightharpoonup> string) option \<Rightarrow> (string \<rightharpoonup> string) option" where
  "normalized_map m = (if m = Some Map.empty then None else m)"

definition azure_normalized :: "AzureKeyConfig option \<Rightarrow> AzureKeyConfig option" where
  "azure_normalized cfg =
    (case cfg of
       Some c \<Rightarrow>
         (let c' = c\<lparr>AzureKeyConfig.Deployments := normalized_map (AzureKeyConfig.Deployments c),
                     APIVersion := normalized_pointer (APIVersion c)\<rparr>
          in if AzureKeyConfig.Endpoint c' = [] \<and> APIVersion c' = None
                \<and> AzureKeyConfig.Deployments c' = None
             then None else Some c')
     | None \<Rightarrow> None)"

definition vertex_normalized :: "VertexKeyConfig option \<Rightarrow> VertexKeyConfig option" where
  "vertex_normalized cfg =
    (case cfg of
       Some c \<Rightarrow>
         if ProjectID c = [] \<and> VertexKeyConfig.Region c = [] \<and> AuthCredentials c = []
         then None else Some c
     | None \<Rightarrow> None)"

definition bedrock_normalized :: "BedrockKeyConfig option \<Rightarrow> BedrockKeyConfig option" where
  "bedrock_normalized cfg =
    (case cfg of
       Some c \<Rightarrow>
         (let c' = c\<lparr>SessionToken := normalized_pointer (SessionToken c),
                     BedrockKeyConfig.Region := normalized_pointer (BedrockKeyConfig.Region c),
                     ARN := normalized_pointer (ARN c),
                     BedrockKeyConfig.Deployments :=
                       normalized_map (BedrockKeyConfig.Deployments c)\<rparr>
          in if AccessKey c' = [] \<and> SecretKey c' = [] \<and> SessionToken c' = None
                \<and> BedrockKeyConfig.Region c' = None \<and> ARN c' = None
                \<and> BedrockKeyConfig.Deployments c' = None
             then None else Some c')
     | None \<Rightarrow> None)"

definition apertus_normalized :: "ApertusKeyConfig option \<Rightarrow> ApertusKeyConfig option" where
  "apertus_normalized cfg =
    (case cfg of
       Some c \<Rightarrow>
         (let c' = c\<lparr>ModelNameMappings := normalized_map (ModelNameMappings c)\<rparr>
          in if ApertusKeyConfig.Endpoint c' = [] \<and> ModelNameMappings c' = None
             then None else Some c')
     | None \<Rightarrow> None)"

text \<open>
  The hooks themselves test strings against \<open>""\<close> and pointers and maps against \<open>nil\<close>. An
  override is the zero value when every string in it is empty and every pointer and every
  map in it is nil: a pointer to the empty string and an empty map that is not nil are not
  zero. \<open>bedrock_read_back\<close> is the value itself unless it is absent or zero.
\<close>

definition azure_is_zero :: "AzureKeyConfig \<Rightarrow> bool" where
  "azure_is_zero c \<longleftrightarrow>
    AzureKeyConfig.Endpoint c = [] \<and> APIVersion c = None \<and> AzureKeyConfig.Deployments c = None"

definition bedrock_is_zero :: "BedrockKeyConfig \<Rightarrow> bool" where
  "bedrock_is_zero c \<longleftrightarrow>
    AccessKey c = [] \<and> SecretKey c = [] \<and> SessionToken c = None
    \<and> BedrockKeyConfig.Region c = None \<and> ARN c = None \<and> BedrockKeyConfig.Deployments c = None"

definition bedrock_read_back :: "BedrockKeyConfig option \<Rightarrow> BedrockKeyConfig option" where
  "bedrock_read_back cfg =
    (case cfg of
       Some c \<Rightarrow> if bedrock_is_zero c then None else Some c
     | None \<Rightarrow> None)"

text \<open>
  What the round trip needs from the JSON library, for the values at hand only: marshalling
  the deployments map succeeds, gives a text that is not empty, and unmarshalling that text
  gives the map back; the stored model list can be read again.
\<close>

definition map_round_trips ::
  "((string \<rightharpoonup> string) \<Rightarrow> error + string) \<Rightarrow> (string \<Rightarrow> error + (string \<rightharpoonup> string) option)
    \<Rightarrow> (string \<rightharpoonup> string) option \<Rightarrow> bool" where
  "map_round_trips marshal unmarshal deployments =
    (case deployments of
       Some d \<Rightarrow>
         (case marshal d of
            Inl err \<Rightarrow> False
          | Inr data \<Rightarrow> data \<noteq> [] \<and> unmarshal data = Inr (Some d))
     | None \<Rightarrow> True)"

definition models_readable :: "json_lib \<Rightarrow> string list option \<Rightarrow> bool" where
  "models_readable J models =
    (case models of
       Some ms \<Rightarrow>
         (case json_Marshal_strings J ms of
            Inl err \<Rightarrow> False
          | Inr data \<Rightarrow> data = [] \<or> snd (json_Unmarshal_strings J data None) = None)
     | None \<Rightarrow> snd (json_Unmarshal_strings J ''[]'' None) = None)"

section \<open>Concrete collaborators for the examples\<close>

text \<open>
  Modelled from the spec: \<open>providerUtils.GetRequestPath\<close> is not among the sources. The
  spec builds the target from the fixed suffix of the shape "after applying any
  request-shape-specific path override supplied by provider configuration": the override
  configured for the request type when there is one, the default path otherwise.
\<close>

definition GetRequestPath_spec ::
  "'ctx \<Rightarrow> string \<Rightarrow> CustomProviderConfig option \<Rightarrow> RequestType \<Rightarrow> string" where
  "GetRequestPath_spec ctx defaultPath cfg requestType =
    (case cfg of
       Some c \<Rightarrow>
         (case RequestPathOverrides c of
            Some overrides \<Rightarrow>
              (case overrides requestType of Some path \<Rightarrow> path | None \<Rightarrow> defaultPath)
          | None \<Rightarrow> defaultPath)
     | None \<Rightarrow> defaultPath)"

text \<open>
  A world that records every call that reaches the network as the pair of the address and
  the model name sent. The shared handlers answer under the provider name they were given;
  the transient OpenAI provider answers, and fails, under its own name \<open>openai\<close>.
\<close>

definition answer :: "ModelProvider \<Rightarrow> RequestType \<Rightarrow> BifrostRequest \<Rightarrow> string BifrostResponse" where
  "answer name rt request =
    \<lparr>Data = Model request, ExtraFields = \<lparr>Provider = name, RequestType = rt, Latency = 1\<rparr>\<rparr>"

definition failure :: "ModelProvider \<Rightarrow> RequestType \<Rightarrow> BifrostError" where
  "failure name rt =
    \<lparr>Message = ''upstream failure'',
     ExtraFields = \<lparr>Provider = name, RequestType = rt, Latency = 0\<rparr>\<rparr>"

definition example_externals :: "(unit, unit, (string \<times> string) list) externals" where
  "example_externals =
    \<lparr>CheckAndSetDefaults = (\<lambda>config. config),
     CheckOperationAllowed = (\<lambda>base cfg rt. None),
     GetProviderName = (\<lambda>base cfg. base),
     GetRequestPath = GetRequestPath_spec,
     ShouldSendBackRawResponse = (\<lambda>ctx b. b),
     MapRange = (\<lambda>m. filter (\<lambda>name. m name \<noteq> None) [''gpt-4o'', ''gpt-4'']),
     HandleOpenAITextCompletionRequest = (\<lambda>ctx url request key headers name raw w.
        ((Some (answer name TextCompletionRequest request), None), w @ [(url, Model request)])),
     HandleOpenAITextCompletionStreaming = (\<lambda>ctx url request auth headers raw name hook w.
        ((Some [StreamResponse (answer name TextCompletionStreamRequest request)], None),
         w @ [(url, Model request)])),
     HandleOpenAIChatCompletionRequest = (\<lambda>ctx url request key headers raw name w.
        ((Some (answer name ChatCompletionRequest request), None), w @ [(url, Model request)])),
     HandleOpenAIChatCompletionStreaming = (\<lambda>ctx url request auth headers raw name hook w.
        ((Some [StreamResponse (answer name ChatCompletionStreamRequest request)], None),
         w @ [(url, Model request)])),
     HandleOpenAIResponsesRequest = (\<lambda>ctx url request key headers raw name w.
        ((Some (answer name ResponsesRequest request), None), w @ [(url, Model request)])),
     HandleOpenAIResponsesStreaming = (\<lambda>ctx url request auth headers raw name hook w.
        ((Some [StreamResponse (answer name ResponsesStreamRequest request)], None),
         w @ [(url, Model request)])),
     HandleOpenAIEmbeddingRequest = (\<lambda>ctx url request key headers name raw w.
        ((Some (answer name EmbeddingRequest request), None), w @ [(url, Model request)])),
     OpenAI_Speech = (\<lambda>config ctx key request w.
        ((Some (answer ''openai'' SpeechRequest request), None),
         w @ [(BaseURL (ProviderConfig.NetworkConfig config), Model request)])),
     OpenAI_SpeechStream = (\<lambda>config ctx hook key request w.
        ((Some [StreamResponse (answer ''openai'' SpeechStreamRequest request)], None),
         w @ [(BaseURL (ProviderConfig.NetworkConfig config), Model request)])),
     OpenAI_Transcription = (\<lambda>config ctx key request w.
        ((None, Some (failure ''openai'' TranscriptionRequest)),
         w @ [(BaseURL (ProviderConfig.NetworkConfig config), Model request)])),
     OpenAI_TranscriptionStream = (\<lambda>config ctx hook key request w.
        ((None, Some (failure ''openai'' TranscriptionStreamRequest)),
         w @ [(BaseURL (ProviderConfig.NetworkConfig config), Model request)]))\<rparr>"

text \<open>The same collaborators behind a gate that rejects every request shape.\<close>

definition rejecting_externals :: "(unit, unit, (string \<times> string) list) externals" where
  "rejecting_externals =
    example_externals\<lparr>CheckOperationAllowed :=
      (\<lambda>base cfg rt. Some (failure base rt))\<rparr>"

definition example_config :: ProviderConfig where
  "example_config =
    \<lparr>ProviderConfig.NetworkConfig =
       \<lparr>BaseURL = [], ExtraHeaders = None, DefaultRequestTimeoutInSeconds = 30,
        MaxRetries = 0, RetryBackoffInitial = 500, RetryBackoffMax = 5000\<rparr>,
     SendBackRawResponse = False,
     ProviderConfig.CustomProviderConfig = None\<rparr>"

definition example_provider :: ApertusProvider where
  "example_provider = NewApertusProvider example_externals example_config"

text \<open>Three keys: without an override, with a custom endpoint, with a model mapping.\<close>

definition plain_key :: Key where
  "plain_key = \<lparr>Value = ''sk-1'', Key.Models = [''gpt-4'', ''gpt-4o''], Key.ApertusKeyConfig = None\<rparr>"

definition custom_key :: Key where
  "custom_key =
    \<lparr>Value = ''sk-2'', Key.Models = [''gpt-4o''],
     Key.ApertusKeyConfig =
       Some \<lparr>ApertusKeyConfig.Endpoint = ''https://custom.example.com/'',
             ModelNameMappings = None\<rparr>\<rparr>"

definition mapped_key :: Key where
  "mapped_key =
    \<lparr>Value = ''sk-3'', Key.Models = [''gpt-4o''],
     Key.ApertusKeyConfig =
       Some \<lparr>ApertusKeyConfig.Endpoint = [],
             ModelNameMappings = Some [''gpt-4o'' \<mapsto> ''prod-deploy-1'']\<rparr>\<rparr>"

text \<open>A provider configured with a path override for the speech request type.\<close>

definition override_provider :: ApertusProvider where
  "override_provider =
    example_provider\<lparr>customProviderConfig :=
      Some \<lparr>CustomProviderKey = [], BaseProviderType = ''openai'',
            RequestPathOverrides = Some [SpeechRequest \<mapsto> ''/custom/speech'']\<rparr>\<rparr>"

text \<open>
  A small JSON library for the examples, defined on the texts that the examples use, and a
  row with every column null and every virtual field nil.
\<close>

definition example_json :: json_lib where
  "example_json =
    \<lparr>json_Marshal_strings = (\<lambda>ms. Inr (''['' @ concat (map (\<lambda>m. m @ '';'') ms) @ '']'')),
     json_Marshal_map = (\<lambda>d. Inr (case d ''gpt-4o'' of
                                     Some v \<Rightarrow> ''{gpt-4o:'' @ v @ ''}''
                                   | None \<Rightarrow> ''{}'')),
     sonic_Marshal_map = (\<lambda>d. Inr (case d ''gpt-4o'' of
                                      Some v \<Rightarrow> ''{gpt-4o:'' @ v @ ''}''
                                    | None \<Rightarrow> ''{}'')),
     json_Unmarshal_strings = (\<lambda>data old.
        if data = ''[]'' then (Some [], None)
        else if data = ''[gpt-4o;]'' then (Some [''gpt-4o''], None)
        else (old, Some (Error ''invalid character''))),
     json_Unmarshal_map = (\<lambda>data.
        if data = ''{}'' then Inr (Some Map.empty)
        else if data = ''null'' then Inr None
        else if data = ''{gpt-4o:prod-deploy-1}''
          then Inr (Some [''gpt-4o'' \<mapsto> ''prod-deploy-1''])
        else Inl (Error ''invalid character''))\<rparr>"

definition empty_row :: TableKey where
  "empty_row =
    \<lparr>ModelsJSON = [], AzureEndpoint = None, AzureAPIVersion = None,
     AzureDeploymentsJSON = None, VertexProjectID = None, VertexRegion = None,
     VertexAuthCredentials = None, BedrockAccessKey = None, BedrockSecretKey = None,
     BedrockSessionToken = None, BedrockRegion = None, BedrockARN = None,
     BedrockDeploymentsJSON = None, ApertusEndpoint = None, TableKey.Models = None,
     AzureKeyConfig = None, VertexKeyConfig = None, BedrockKeyConfig = None,
     TableKey.ApertusKeyConfig = None\<rparr>"

text \<open>A key that holds an override for every provider, each with a field left empty.\<close>

definition full_row :: TableKey where
  "full_row =
    empty_row\<lparr>TableKey.Models := Some [''gpt-4o''],
      AzureKeyConfig := Some \<lparr>AzureKeyConfig.Endpoint = ''https://azure.example.com'',
                               Deployments = Some [''gpt-4o'' \<mapsto> ''prod-deploy-1''],
                               APIVersion = None\<rparr>,
      VertexKeyConfig := Some \<lparr>ProjectID = ''project-1'', Region = [],
                                AuthCredentials = []\<rparr>,
      BedrockKeyConfig := Some \<lparr>AccessKey = [], SecretKey = [], SessionToken = None,
                                 Region = None, ARN = None,
                                 Deployments = Some [''gpt-4o'' \<mapsto> ''prod-deploy-1'']\<rparr>,
      TableKey.ApertusKeyConfig :=
        Some \<lparr>ApertusKeyConfig.Endpoint = ''https://custom.example.com/'',
              ModelNameMappings = None\<rparr>\<rparr>"

text \<open>An Azure override without an endpoint but with an API version.\<close>

definition azure_version_row :: TableKey where
  "azure_version_row =
    empty_row\<lparr>AzureKeyConfig := Some \<lparr>AzureKeyConfig.Endpoint = [], Deployments = None,
                                       APIVersion = Some ''2024-02-01''\<rparr>\<rparr>"

text \<open>A Bedrock override that is empty but for a session token pointing at the empty string.\<close>

definition bedrock_pointer_row :: TableKey where
  "bedrock_pointer_row =
    empty_row\<lparr>BedrockKeyConfig := Some \<lparr>AccessKey = [], SecretKey = [], SessionToken = Some [],
                                         Region = None, ARN = None, Deployments = None\<rparr>\<rparr>"

text \<open>An Apertus override with an endpoint and one model mapping.\<close>

definition apertus_mapped_row :: TableKey where
  "apertus_mapped_row =
    empty_row\<lparr>TableKey.ApertusKeyConfig :=
      Some \<lparr>ApertusKeyConfig.Endpoint = ''https://custom.example.com'',
            ModelNameMappings = Some [''gpt-4o'' \<mapsto> ''prod-deploy-1'']\<rparr>\<rparr>"

text \<open>
  A JSON library for the provider table, defined on the texts of the example, and a provider
  row whose columns hold an earlier configuration while its virtual fields have been cleared.
\<close>

definition example_provider_json :: "(unit, unit) provider_json" where
  "example_provider_json =
    \<lparr>Marshal_NetworkConfig = (\<lambda>c. Inr (''{base_url:'' @ BaseURL c @ ''}'')),
     Marshal_ConcurrencyAndBufferSize = (\<lambda>c. Inr ''{}''),
     Marshal_ProxyConfig = (\<lambda>c. Inr ''{}''),
     Marshal_CustomProviderConfig =
       (\<lambda>c. Inr (''{base_provider_type:'' @ BaseProviderType c @ ''}'')),
     Unmarshal_NetworkConfig = (\<lambda>data.
        if data = ''{base_url:https://api.example.com}''
        then Inr \<lparr>BaseURL = ''https://api.example.com'', ExtraHeaders = None,
                  DefaultRequestTimeoutInSeconds = 0, MaxRetries = 0,
                  RetryBackoffInitial = 0, RetryBackoffMax = 0\<rparr>
        else Inl (Error ''invalid character'')),
     Unmarshal_ConcurrencyAndBufferSize = (\<lambda>data.
        if data = ''{}'' then Inr () else Inl (Error ''invalid character'')),
     Unmarshal_ProxyConfig = (\<lambda>data.
        if data = ''{}'' then Inr () else Inl (Error ''invalid character'')),
     Unmarshal_CustomProviderConfig = (\<lambda>data.
        if data = ''{base_provider_type:openai}''
        then Inr \<lparr>CustomProviderKey = [], BaseProviderType = ''openai'',
                  RequestPathOverrides = None\<rparr>
        else Inl (Error ''invalid character''))\<rparr>"

definition cleared_provider :: "(unit, unit) TableProvider" where
  "cleared_provider =
    \<lparr>NetworkConfigJSON = ''{base_url:https://api.example.com}'',
     ConcurrencyBufferJSON = ''{}'',
     ProxyConfigJSON = [],
     CustomProviderConfigJSON = ''{base_provider_type:openai}'',
     TableProvider.NetworkConfig = None,
     ConcurrencyAndBufferSize = None,
     ProxyConfig = None,
     TableProvider.CustomProviderConfig = None\<rparr>"

section \<open>The resolver\<close>

lemma TrimRight_decomp:
  "TrimRight s cs @ rev (takeWhile (\<lambda>c. c \<in> set cs) (rev s)) = s"
proof -
  have "rev (takeWhile (\<lambda>c. c \<in> set cs) (rev s) @ dropWhile (\<lambda>c. c \<in> set cs) (rev s)) = s"
    by simp
  then show ?thesis
    unfolding TrimRight_def by (simp only: rev_append)
qed

lemma TrimRight_last:
  "TrimRight s cs \<noteq> [] \<Longrightarrow> last (TrimRight s cs) \<notin> set cs"
proof -
  assume ne: "TrimRight s cs \<noteq> []"
  then have d: "dropWhile (\<lambda>c. c \<in> set cs) (rev s) \<noteq> []"
    by (simp add: TrimRight_def)
  then have "hd (dropWhile (\<lambda>c. c \<in> set cs) (rev s)) \<notin> set cs"
    using hd_dropWhile [of "\<lambda>c. c \<in> set cs" "rev s"] by simp
  with d show ?thesis
    by (simp add: TrimRight_def last_rev)
qed

lemma TrimRight_slash_suffix:
  "TrimRight s ''/'' @ replicate (length s - length (TrimRight s ''/'')) (CHR ''/'') = s"
proof -
  let ?t = "takeWhile (\<lambda>c. c \<in> set ''/'') (rev s)"
  have all: "\<forall>c \<in> set (rev ?t). c = CHR ''/''"
    using set_takeWhileD [of _ "\<lambda>c. c \<in> set ''/''" "rev s"] by auto
  have "rev ?t = replicate (length (rev ?t)) (CHR ''/'')"
    using all by (metis replicate_length_same)
  moreover have "length (rev ?t) = length s - length (TrimRight s ''/'')"
    using arg_cong [OF TrimRight_decomp [of s "''/''"], of length] by simp
  ultimately show ?thesis
    using TrimRight_decomp [of s "''/''"] by simp
qed

lemma TrimRight_empty_iff: "TrimRight s ''/'' = [] \<longleftrightarrow> only_slashes s"
  by (auto simp: TrimRight_def only_slashes_def list_all_iff)

lemma example_provider_eq:
  "example_provider =
    \<lparr>networkConfig =
       \<lparr>BaseURL = ''https://api.openai.com'', ExtraHeaders = None,
        DefaultRequestTimeoutInSeconds = 30, MaxRetries = 0, RetryBackoffInitial = 500,
        RetryBackoffMax = 5000\<rparr>,
     sendBackRawResponse = False,
     customProviderConfig = None\<rparr>"
  by (simp add: example_provider_def NewApertusProvider_def example_externals_def
      example_config_def TrimRight_def Let_def)

text \<open>
  C4. Without an override, or with an override whose endpoint is empty, the effective base
  URL is the base URL the provider holds. With a non-empty endpoint it is that endpoint
  without its trailing slashes, whatever the provider holds: the endpoint is the result
  followed by slashes only, and the result does not end in a slash.
\<close>

theorem getBaseURL_fallback_and_override:
  "(Key.ApertusKeyConfig key = None \<longrightarrow> getBaseURL provider key = BaseURL (networkConfig provider))
   \<and> (\<forall>c. Key.ApertusKeyConfig key = Some c \<and> ApertusKeyConfig.Endpoint c = [] \<longrightarrow>
          getBaseURL provider key = BaseURL (networkConfig provider))
   \<and> (\<forall>c. Key.ApertusKeyConfig key = Some c \<and> ApertusKeyConfig.Endpoint c \<noteq> [] \<longrightarrow>
          getBaseURL provider key = TrimRight (ApertusKeyConfig.Endpoint c) ''/''
          \<and> getBaseURL provider key
              @ replicate (length (ApertusKeyConfig.Endpoint c) - length (getBaseURL provider key))
                  (CHR ''/'')
            = ApertusKeyConfig.Endpoint c
          \<and> (getBaseURL provider key = [] \<or> last (getBaseURL provider key) \<noteq> CHR ''/''))"
proof (intro conjI allI impI)
  fix c
  assume a: "Key.ApertusKeyConfig key = Some c \<and> ApertusKeyConfig.Endpoint c \<noteq> []"
  then have eq: "getBaseURL provider key = TrimRight (ApertusKeyConfig.Endpoint c) ''/''"
    by (simp add: getBaseURL_def)
  show "getBaseURL provider key = TrimRight (ApertusKeyConfig.Endpoint c) ''/''"
    by (rule eq)
  show "getBaseURL provider key
          @ replicate (length (ApertusKeyConfig.Endpoint c) - length (getBaseURL provider key))
              (CHR ''/'')
        = ApertusKeyConfig.Endpoint c"
    unfolding eq by (rule TrimRight_slash_suffix)
  show "getBaseURL provider key = [] \<or> last (getBaseURL provider key) \<noteq> CHR ''/''"
    unfolding eq using TrimRight_last [of "ApertusKeyConfig.Endpoint c" "''/''"] by auto
qed (simp_all add: getBaseURL_def)

theorem getBaseURL_fallback_and_override_witness:
  "getBaseURL example_provider plain_key = ''https://api.openai.com''
   \<and> getBaseURL example_provider mapped_key = ''https://api.openai.com''
   \<and> getBaseURL example_provider custom_key = ''https://custom.example.com''"
  using getBaseURL_fallback_and_override [of plain_key example_provider]
    getBaseURL_fallback_and_override [of mapped_key example_provider]
    getBaseURL_fallback_and_override [of custom_key example_provider]
  by (simp add: plain_key_def mapped_key_def custom_key_def example_provider_eq TrimRight_def)

text \<open>
  C5, as stated, fails: a key whose endpoint is the single slash is not empty, so the
  endpoint branch is taken, and trimming leaves the empty string.
\<close>

theorem getBaseURL_empty_counterexample:
  "getBaseURL example_provider
     \<lparr>Value = ''sk-4'', Key.Models = [],
      Key.ApertusKeyConfig = Some \<lparr>ApertusKeyConfig.Endpoint = ''/'', ModelNameMappings = None\<rparr>\<rparr>
   = []"
  by (simp add: getBaseURL_def TrimRight_def)

text \<open>
  C5, amended. The constructor replaces an empty configured default by the fallback
  \<open>https://api.openai.com\<close> and then trims trailing slashes. The effective base URL is empty
  exactly when the string it is taken from is not empty and holds slashes only: the key's
  endpoint when it is not empty, the configured default otherwise.
\<close>

theorem getBaseURL_empty_iff:
  "BaseURL (networkConfig (NewApertusProvider E config)) =
     TrimRight (if BaseURL (ProviderConfig.NetworkConfig (CheckAndSetDefaults E config)) = []
                then ''https://api.openai.com''
                else BaseURL (ProviderConfig.NetworkConfig (CheckAndSetDefaults E config))) ''/''
   \<and> (getBaseURL (NewApertusProvider E config) key = [] \<longleftrightarrow>
        (let b = BaseURL (ProviderConfig.NetworkConfig (CheckAndSetDefaults E config));
             source = (case Key.ApertusKeyConfig key of
                         Some c \<Rightarrow> if ApertusKeyConfig.Endpoint c \<noteq> []
                                   then ApertusKeyConfig.Endpoint c else b
                       | None \<Rightarrow> b)
         in source \<noteq> [] \<and> only_slashes source))"
proof -
  let ?b = "BaseURL (ProviderConfig.NetworkConfig (CheckAndSetDefaults E config))"
  have fallback: "\<not> only_slashes ''https://api.openai.com''"
    by (simp add: only_slashes_def)
  have d: "BaseURL (networkConfig (NewApertusProvider E config)) =
     TrimRight (if ?b = [] then ''https://api.openai.com'' else ?b) ''/''"
    by (simp add: NewApertusProvider_def Let_def)
  have e: "BaseURL (networkConfig (NewApertusProvider E config)) = []
      \<longleftrightarrow> ?b \<noteq> [] \<and> only_slashes ?b"
    unfolding d using fallback by (simp add: TrimRight_empty_iff)
  show ?thesis
    using d e
    by (auto simp: getBaseURL_def Let_def TrimRight_empty_iff split: option.splits)
qed

theorem getBaseURL_empty_iff_witness:
  "BaseURL (networkConfig (NewApertusProvider example_externals example_config))
     = ''https://api.openai.com''
   \<and> getBaseURL (NewApertusProvider example_externals example_config) custom_key \<noteq> []"
  using getBaseURL_empty_iff [of example_externals example_config custom_key]
  by (simp add: example_externals_def example_config_def custom_key_def TrimRight_def
      only_slashes_def Let_def)

section \<open>The policy gate\<close>

text \<open>
  C7. Every entry point asks the gate first, with the Apertus identity, the provider's
  custom configuration and its own request shape. When the gate rejects, the entry point
  returns the gate's error as it is, with no response, and the world is the one it was
  called in: no address is computed and no handler is reached.
\<close>

theorem gate_rejection_returned_unchanged:
  "(\<forall>err. CheckOperationAllowed E Apertus (customProviderConfig provider) ListModelsRequest
            = Some err \<longrightarrow>
        ListModels E provider ctx keys lrequest w = ((None, Some err), w))
   \<and> (\<forall>err. CheckOperationAllowed E Apertus (customProviderConfig provider)
            TextCompletionRequest = Some err \<longrightarrow>
        TextCompletion E provider ctx key request w = ((None, Some err), w))
   \<and> (\<forall>err. CheckOperationAllowed E Apertus (customProviderConfig provider)
            TextCompletionStreamRequest = Some err \<longrightarrow>
        TextCompletionStream E provider ctx hook key request w = ((None, Some err), w))
   \<and> (\<forall>err. CheckOperationAllowed E Apertus (customProviderConfig provider)
            ChatCompletionRequest = Some err \<longrightarrow>
        ChatCompletion E provider ctx key request w = ((None, Some err), w))
   \<and> (\<forall>err. CheckOperationAllowed E Apertus (customProviderConfig provider)
            ChatCompletionStreamRequest = Some err \<longrightarrow>
        ChatCompletionStream E provider ctx hook key request w = ((None, Some err), w))
   \<and> (\<forall>err. CheckOperationAllowed E Apertus (customProviderConfig provider)
            ResponsesRequest = Some err \<longrightarrow>
        Responses E provider ctx key request w = ((None, Some err), w))
   \<and> (\<forall>err. CheckOperationAllowed E Apertus (customProviderConfig provider)
            ResponsesStreamRequest = Some err \<longrightarrow>
        ResponsesStream E provider ctx hook key request w = ((None, Some err), w))
   \<and> (\<forall>err. CheckOperationAllowed E Apertus (customProviderConfig provider)
            EmbeddingRequest = Some err \<longrightarrow>
        Embedding E provider ctx key request w = ((None, Some err), w))
   \<and> (\<forall>err. CheckOperationAllowed E Apertus (customProviderConfig provider)
            SpeechRequest = Some err \<longrightarrow>
        Speech E provider ctx key request w = ((None, Some err), w))
   \<and> (\<forall>err. CheckOperationAllowed E Apertus (customProviderConfig provider)
            SpeechStreamRequest = Some err \<longrightarrow>
        SpeechStream E provider ctx hook key request w = ((None, Some err), w))
   \<and> (\<forall>err. CheckOperationAllowed E Apertus (customProviderConfig provider)
            TranscriptionRequest = Some err \<longrightarrow>
        Transcription E provider ctx key request w = ((None, Some err), w))
   \<and> (\<forall>err. CheckOperationAllowed E Apertus (customProviderConfig provider)
            TranscriptionStreamRequest = Some err \<longrightarrow>
        TranscriptionStream E provider ctx hook key request w = ((None, Some err), w))"
  by (simp add: ListModels_def TextCompletion_def TextCompletionStream_def ChatCompletion_def
      ChatCompletionStream_def Responses_def ResponsesStream_def Embedding_def Speech_def
      SpeechStream_def Transcription_def TranscriptionStream_def)

theorem gate_rejection_returned_unchanged_witness:
  "ListModels rejecting_externals example_provider () [plain_key] () []
     = ((None, Some (failure ''apertus'' ListModelsRequest)), [])
   \<and> ChatCompletion rejecting_externals example_provider () custom_key
       \<lparr>Model = ''gpt-4'', Input = ''hi''\<rparr> []
     = ((None, Some (failure ''apertus'' ChatCompletionRequest)), [])
   \<and> Embedding rejecting_externals example_provider () custom_key
       \<lparr>Model = ''gpt-4'', Input = ''hi''\<rparr> []
     = ((None, Some (failure ''apertus'' EmbeddingRequest)), [])
   \<and> Speech rejecting_externals example_provider () custom_key
       \<lparr>Model = ''tts-1'', Input = ''hi''\<rparr> []
     = ((None, Some (failure ''apertus'' SpeechRequest)), [])
   \<and> TranscriptionStream rejecting_externals example_provider () () custom_key
       \<lparr>Model = ''whisper-1'', Input = ''hi''\<rparr> []
     = ((None, Some (failure ''apertus'' TranscriptionStreamRequest)), [])"
  using gate_rejection_returned_unchanged
    [of rejecting_externals example_provider "()" "[plain_key]" "()" "[]" custom_key
        "\<lparr>Model = ''gpt-4'', Input = ''hi''\<rparr>" "()"]
    gate_rejection_returned_unchanged
    [of rejecting_externals example_provider "()" "[plain_key]" "()" "[]" custom_key
        "\<lparr>Model = ''tts-1'', Input = ''hi''\<rparr>" "()"]
    gate_rejection_returned_unchanged
    [of rejecting_externals example_provider "()" "[plain_key]" "()" "[]" custom_key
        "\<lparr>Model = ''whisper-1'', Input = ''hi''\<rparr>" "()"]
  by (simp add: rejecting_externals_def example_externals_def Apertus_def)

section \<open>Identity of delegated calls\<close>

lemma example_allows:
  "CheckOperationAllowed example_externals base cfg rt = None"
  by (simp add: example_externals_def)

lemma example_identity:
  "GetProviderKey example_externals provider = ''apertus''"
  by (simp add: GetProviderKey_def example_externals_def Apertus_def)

lemma custom_key_base:
  "getBaseURL provider custom_key = ''https://custom.example.com''"
  by (simp add: getBaseURL_def custom_key_def TrimRight_def)

text \<open>
  The blocking speech and transcription entry points overwrite the provider name on the
  response and on the error that the transient OpenAI provider returns.
\<close>

lemma Speech_identity_patched:
  assumes "CheckOperationAllowed E Apertus (customProviderConfig provider) SpeechRequest = None"
  shows "(case fst (Speech E provider ctx key request w) of
            (Some r, _) \<Rightarrow> Provider (BifrostResponse.ExtraFields r) = GetProviderKey E provider
          | (None, Some e) \<Rightarrow> Provider (BifrostError.ExtraFields e) = GetProviderKey E provider
          | (None, None) \<Rightarrow> True)"
  using assms
  by (cases "OpenAI_Speech E (tempConfig provider key) ctx key request w")
     (auto simp: Speech_def split: option.splits prod.splits)

lemma Transcription_identity_patched:
  assumes "CheckOperationAllowed E Apertus (customProviderConfig provider) TranscriptionRequest
             = None"
  shows "(case fst (Transcription E provider ctx key request w) of
            (Some r, _) \<Rightarrow> Provider (BifrostResponse.ExtraFields r) = GetProviderKey E provider
          | (None, Some e) \<Rightarrow> Provider (BifrostError.ExtraFields e) = GetProviderKey E provider
          | (None, None) \<Rightarrow> True)"
  using assms
  by (cases "OpenAI_Transcription E (tempConfig provider key) ctx key request w")
     (auto simp: Transcription_def split: option.splits prod.splits)

text \<open>
  C3 at its failing input. The streaming speech and transcription entry points return what
  the transient OpenAI provider returns, untouched: with a delegate that answers under the
  name \<open>openai\<close>, the streamed event and the error carry \<open>openai\<close> while the provider's own
  identity is \<open>apertus\<close>.
\<close>

theorem streaming_delegate_identity_not_patched:
  "GetProviderKey example_externals example_provider = ''apertus''
   \<and> SpeechStream example_externals example_provider () () custom_key
        \<lparr>Model = ''tts-1'', Input = ''hello''\<rparr> []
      = ((Some [StreamResponse
                 \<lparr>Data = ''tts-1'',
                  ExtraFields = \<lparr>Provider = ''openai'', RequestType = SpeechStreamRequest,
                                 Latency = 1\<rparr>\<rparr>],
          None),
         [(''https://custom.example.com'', ''tts-1'')])
   \<and> TranscriptionStream example_externals example_provider () () custom_key
        \<lparr>Model = ''whisper-1'', Input = ''audio''\<rparr> []
      = ((None,
          Some \<lparr>Message = ''upstream failure'',
                ExtraFields = \<lparr>Provider = ''openai'', RequestType = TranscriptionStreamRequest,
                               Latency = 0\<rparr>\<rparr>),
         [(''https://custom.example.com'', ''whisper-1'')])"
  by (simp add: example_identity SpeechStream_def TranscriptionStream_def example_allows
      tempConfig_def custom_key_base)
     (simp add: example_externals_def answer_def failure_def)

section \<open>Model names\<close>

text \<open>
  C2 at its failing input. The key maps \<open>gpt-4o\<close> to \<open>prod-deploy-1\<close>; the chat completion
  entry point hands the request to the shared handler as it came, so the model name that
  goes out with the call is still \<open>gpt-4o\<close>.
\<close>

theorem ChatCompletion_model_not_mapped:
  "(case Key.ApertusKeyConfig mapped_key of
      Some c \<Rightarrow> (case ModelNameMappings c of Some m \<Rightarrow> m ''gpt-4o'' | None \<Rightarrow> None)
    | None \<Rightarrow> None) = Some ''prod-deploy-1''
   \<and> ChatCompletion example_externals example_provider () mapped_key
        \<lparr>Model = ''gpt-4o'', Input = ''hi''\<rparr> []
      = ((Some \<lparr>Data = ''gpt-4o'',
                ExtraFields = \<lparr>Provider = ''apertus'', RequestType = ChatCompletionRequest,
                               Latency = 1\<rparr>\<rparr>,
          None),
         [(''https://api.openai.com/v1/chat/completions'', ''gpt-4o'')])"
  by (simp add: mapped_key_def ChatCompletion_def example_allows example_identity
      buildRequestURL_def getBaseURL_def example_provider_eq)
     (simp add: example_externals_def answer_def GetRequestPath_spec_def)

section \<open>Target addresses\<close>

text \<open>
  C6, as stated, fails for the delegated shapes. Two providers that differ only in a path
  override for speech should, by the claim, target two different addresses; the speech
  entry point builds the same delegate configuration for both, without the override, and
  the two calls are the same call.
\<close>

theorem speech_path_override_counterexample:
  "buildRequestURL example_externals override_provider () custom_key ''/v1/audio/speech''
      SpeechRequest = ''https://custom.example.com/custom/speech''
   \<and> buildRequestURL example_externals example_provider () custom_key ''/v1/audio/speech''
      SpeechRequest = ''https://custom.example.com/v1/audio/speech''
   \<and> tempConfig override_provider custom_key = tempConfig example_provider custom_key
   \<and> ProviderConfig.CustomProviderConfig (tempConfig override_provider custom_key) = None
   \<and> Speech example_externals override_provider () custom_key
        \<lparr>Model = ''tts-1'', Input = ''hello''\<rparr> []
      = Speech example_externals example_provider () custom_key
        \<lparr>Model = ''tts-1'', Input = ''hello''\<rparr> []
   \<and> snd (Speech example_externals override_provider () custom_key
        \<lparr>Model = ''tts-1'', Input = ''hello''\<rparr> [])
      = [(''https://custom.example.com'', ''tts-1'')]"
  by (simp add: buildRequestURL_def custom_key_base Speech_def example_allows example_identity
      tempConfig_def override_provider_def)
     (simp add: example_externals_def GetRequestPath_spec_def answer_def example_provider_eq
        GetProviderKey_def Apertus_def)

text \<open>
  C6, amended. For text completion, chat completion, responses and embeddings, blocking and
  streaming, the address handed to the shared handler is the effective base URL of the key
  followed by the request path (the fixed suffix of the shape, after the configured path
  override). Speech and transcription build no address: they hand the transient OpenAI
  provider a configuration whose base URL is the effective base URL of the key and which
  carries no custom provider configuration, and reach the network through it only.
\<close>

theorem dispatch_target_url:
  "(CheckOperationAllowed E Apertus (customProviderConfig provider) TextCompletionRequest = None
      \<longrightarrow> TextCompletion E provider ctx key request w =
        HandleOpenAITextCompletionRequest E ctx
          (getBaseURL provider key
            @ GetRequestPath E ctx ''/v1/completions'' (customProviderConfig provider)
                TextCompletionRequest)
          request key (ExtraHeaders (networkConfig provider)) (GetProviderKey E provider)
          (ShouldSendBackRawResponse E ctx (sendBackRawResponse provider)) w)
   \<and> (CheckOperationAllowed E Apertus (customProviderConfig provider)
        TextCompletionStreamRequest = None
      \<longrightarrow> TextCompletionStream E provider ctx hook key request w =
        HandleOpenAITextCompletionStreaming E ctx
          (getBaseURL provider key
            @ GetRequestPath E ctx ''/v1/completions'' (customProviderConfig provider)
                TextCompletionStreamRequest)
          request [''Authorization'' \<mapsto> ''Bearer '' @ Key.Value key]
          (ExtraHeaders (networkConfig provider))
          (ShouldSendBackRawResponse E ctx (sendBackRawResponse provider))
          (GetProviderKey E provider) hook w)
   \<and> (CheckOperationAllowed E Apertus (customProviderConfig provider) ChatCompletionRequest = None
      \<longrightarrow> ChatCompletion E provider ctx key request w =
        HandleOpenAIChatCompletionRequest E ctx
          (getBaseURL provider key
            @ GetRequestPath E ctx ''/v1/chat/completions'' (customProviderConfig provider)
                ChatCompletionRequest)
          request key (ExtraHeaders (networkConfig provider))
          (ShouldSendBackRawResponse E ctx (sendBackRawResponse provider))
          (GetProviderKey E provider) w)
   \<and> (CheckOperationAllowed E Apertus (customProviderConfig provider)
        ChatCompletionStreamRequest = None
      \<longrightarrow> ChatCompletionStream E provider ctx hook key request w =
        HandleOpenAIChatCompletionStreaming E ctx
          (getBaseURL provider key
            @ GetRequestPath E ctx ''/v1/chat/completions'' (customProviderConfig provider)
                ChatCompletionStreamRequest)
          request [''Authorization'' \<mapsto> ''Bearer '' @ Key.Value key]
          (ExtraHeaders (networkConfig provider))
          (ShouldSendBackRawResponse E ctx (sendBackRawResponse provider))
          (GetProviderKey E provider) hook w)
   \<and> (CheckOperationAllowed E Apertus (customProviderConfig provider) ResponsesRequest = None
      \<longrightarrow> Responses E provider ctx key request w =
        HandleOpenAIResponsesRequest E ctx
          (getBaseURL provider key
            @ GetRequestPath E ctx ''/v1/responses'' (customProviderConfig provider)
                ResponsesRequest)
          request key (ExtraHeaders (networkConfig provider))
          (ShouldSendBackRawResponse E ctx (sendBackRawResponse provider))
          (GetProviderKey E provider) w)
   \<and> (CheckOperationAllowed E Apertus (customProviderConfig provider) ResponsesStreamRequest
        = None
      \<longrightarrow> ResponsesStream E provider ctx hook key request w =
        HandleOpenAIResponsesStreaming E ctx
          (getBaseURL provider key
            @ GetRequestPath E ctx ''/v1/responses'' (customProviderConfig provider)
                ResponsesStreamRequest)
          request [''Authorization'' \<mapsto> ''Bearer '' @ Key.Value key]
          (ExtraHeaders (networkConfig provider))
          (ShouldSendBackRawResponse E ctx (sendBackRawResponse provider))
          (GetProviderKey E provider) hook w)
   \<and> (CheckOperationAllowed E Apertus (customProviderConfig provider) EmbeddingRequest = None
      \<longrightarrow> Embedding E provider ctx key request w =
        HandleOpenAIEmbeddingRequest E ctx
          (getBaseURL provider key
            @ GetRequestPath E ctx ''/v1/embeddings'' (customProviderConfig provider)
                EmbeddingRequest)
          request key (ExtraHeaders (networkConfig provider)) (GetProviderKey E provider)
          (ShouldSendBackRawResponse E ctx (sendBackRawResponse provider)) w)
   \<and> BaseURL (ProviderConfig.NetworkConfig (tempConfig provider key)) = getBaseURL provider key
   \<and> ProviderConfig.CustomProviderConfig (tempConfig provider key) = None
   \<and> (CheckOperationAllowed E Apertus (customProviderConfig provider) SpeechRequest = None
      \<longrightarrow> snd (Speech E provider ctx key request w) =
          snd (OpenAI_Speech E (tempConfig provider key) ctx key request w))
   \<and> (CheckOperationAllowed E Apertus (customProviderConfig provider) SpeechStreamRequest = None
      \<longrightarrow> SpeechStream E provider ctx hook key request w =
          OpenAI_SpeechStream E (tempConfig provider key) ctx hook key request w)
   \<and> (CheckOperationAllowed E Apertus (customProviderConfig provider) TranscriptionRequest = None
      \<longrightarrow> snd (Transcription E provider ctx key request w) =
          snd (OpenAI_Transcription E (tempConfig provider key) ctx key request w))
   \<and> (CheckOperationAllowed E Apertus (customProviderConfig provider)
        TranscriptionStreamRequest = None
      \<longrightarrow> TranscriptionStream E provider ctx hook key request w =
          OpenAI_TranscriptionStream E (tempConfig provider key) ctx hook key request w)"
proof -
  have speech: "snd (Speech E provider ctx key request w) =
      snd (OpenAI_Speech E (tempConfig provider key) ctx key request w)"
    if "CheckOperationAllowed E Apertus (customProviderConfig provider) SpeechRequest = None"
    using that
    by (cases "OpenAI_Speech E (tempConfig provider key) ctx key request w")
       (auto simp: Speech_def split: option.splits)
  have transcription: "snd (Transcription E provider ctx key request w) =
      snd (OpenAI_Transcription E (tempConfig provider key) ctx key request w)"
    if "CheckOperationAllowed E Apertus (customProviderConfig provider) TranscriptionRequest
          = None"
    using that
    by (cases "OpenAI_Transcription E (tempConfig provider key) ctx key request w")
       (auto simp: Transcription_def split: option.splits)
  show ?thesis
    using speech transcription
    by (simp add: TextCompletion_def TextCompletionStream_def ChatCompletion_def
        ChatCompletionStream_def Responses_def ResponsesStream_def Embedding_def
        SpeechStream_def TranscriptionStream_def buildRequestURL_def tempConfig_def)
qed

theorem dispatch_target_url_witness:
  "ChatCompletion example_externals example_provider () custom_key
      \<lparr>Model = ''gpt-4'', Input = ''hi''\<rparr> []
     = ((Some \<lparr>Data = ''gpt-4'',
               ExtraFields = \<lparr>Provider = ''apertus'', RequestType = ChatCompletionRequest,
                              Latency = 1\<rparr>\<rparr>,
         None),
        [(''https://custom.example.com/v1/chat/completions'', ''gpt-4'')])
   \<and> snd (Embedding example_externals example_provider () plain_key
      \<lparr>Model = ''gpt-4'', Input = ''hi''\<rparr> [])
     = [(''https://api.openai.com/v1/embeddings'', ''gpt-4'')]
   \<and> snd (SpeechStream example_externals example_provider () () custom_key
      \<lparr>Model = ''tts-1'', Input = ''hi''\<rparr> [])
     = [(''https://custom.example.com'', ''tts-1'')]"
  using dispatch_target_url [of example_externals example_provider "()" custom_key
      "\<lparr>Model = ''gpt-4'', Input = ''hi''\<rparr>" "[]" "()"]
    dispatch_target_url [of example_externals example_provider "()" plain_key
      "\<lparr>Model = ''gpt-4'', Input = ''hi''\<rparr>" "[]" "()"]
    dispatch_target_url [of example_externals example_provider "()" custom_key
      "\<lparr>Model = ''tts-1'', Input = ''hi''\<rparr>" "[]" "()"]
  by (simp add: example_allows example_identity custom_key_base tempConfig_def)
     (simp add: example_externals_def GetRequestPath_spec_def answer_def example_provider_eq
        getBaseURL_def plain_key_def)

section \<open>Listing models\<close>







section \<open>The key-table codec\<close>

lemma andThen_simps:
  "andThen (s, None) f = f s"
  "andThen (s, Some e) f = (s, Some e)"
  by (simp_all add: andThen_def)

lemma AfterFind_Models_nf:
  "AfterFind_Models J k = (k\<lparr>TableKey.Models := fst (models_decoded J k)\<rparr>, snd (models_decoded J k))"
  by (simp add: AfterFind_Models_def models_decoded_def split: prod.splits)

lemma AfterFind_Azure_nf:
  "AfterFind_Azure J k =
    (case azure_decoded J k of
       Inl err \<Rightarrow> (k, Some err)
     | Inr c \<Rightarrow> (k\<lparr>AzureKeyConfig := c\<rparr>, None))"
  by (simp add: AfterFind_Azure_def azure_decoded_def deployments_decoded_def Let_def
      split: option.splits sum.splits)

lemma AfterFind_Vertex_nf:
  "AfterFind_Vertex k = k\<lparr>VertexKeyConfig := vertex_decoded k\<rparr>"
  by (simp add: AfterFind_Vertex_def vertex_decoded_def)

lemma AfterFind_Bedrock_nf:
  "AfterFind_Bedrock J k =
    (case bedrock_decoded J k of
       Inl err \<Rightarrow> (k, Some err)
     | Inr c \<Rightarrow> (k\<lparr>BedrockKeyConfig := c\<rparr>, None))"
  by (simp add: AfterFind_Bedrock_def bedrock_decoded_def bedrock_present_def
      deployments_decoded_def Let_def
      split: option.splits sum.splits)

lemma AfterFind_Apertus_nf:
  "AfterFind_Apertus k = k\<lparr>TableKey.ApertusKeyConfig := apertus_decoded k\<rparr>"
  by (simp add: AfterFind_Apertus_def apertus_decoded_def split: option.splits)

lemma decoded_frame:
  "azure_decoded J (k\<lparr>TableKey.Models := ms\<rparr>) = azure_decoded J k"
  "vertex_decoded (k\<lparr>TableKey.Models := ms\<rparr>) = vertex_decoded k"
  "vertex_decoded (k\<lparr>AzureKeyConfig := az\<rparr>) = vertex_decoded k"
  "bedrock_decoded J (k\<lparr>TableKey.Models := ms\<rparr>) = bedrock_decoded J k"
  "bedrock_decoded J (k\<lparr>AzureKeyConfig := az\<rparr>) = bedrock_decoded J k"
  "bedrock_decoded J (k\<lparr>VertexKeyConfig := vx\<rparr>) = bedrock_decoded J k"
  "apertus_decoded (k\<lparr>TableKey.Models := ms\<rparr>) = apertus_decoded k"
  "apertus_decoded (k\<lparr>AzureKeyConfig := az\<rparr>) = apertus_decoded k"
  "apertus_decoded (k\<lparr>VertexKeyConfig := vx\<rparr>) = apertus_decoded k"
  "apertus_decoded (k\<lparr>BedrockKeyConfig := bd\<rparr>) = apertus_decoded k"
  by (simp_all add: azure_decoded_def vertex_decoded_def bedrock_decoded_def bedrock_present_def
      apertus_decoded_def cong: option.case_cong sum.case_cong if_cong)

lemma TableKey_AfterFind_nf:
  "TableKey_AfterFind J k =
    (case snd (models_decoded J k) of
       Some err \<Rightarrow> (k\<lparr>TableKey.Models := fst (models_decoded J k)\<rparr>, Some err)
     | None \<Rightarrow>
        (case azure_decoded J k of
           Inl err \<Rightarrow> (k\<lparr>TableKey.Models := fst (models_decoded J k)\<rparr>, Some err)
         | Inr az \<Rightarrow>
            (case bedrock_decoded J k of
               Inl err \<Rightarrow>
                 (k\<lparr>TableKey.Models := fst (models_decoded J k), AzureKeyConfig := az,
                    VertexKeyConfig := vertex_decoded k\<rparr>, Some err)
             | Inr bd \<Rightarrow>
                 (k\<lparr>TableKey.Models := fst (models_decoded J k), AzureKeyConfig := az,
                    VertexKeyConfig := vertex_decoded k, BedrockKeyConfig := bd,
                    TableKey.ApertusKeyConfig := apertus_decoded k\<rparr>, None))))"
  by (simp add: TableKey_AfterFind_def AfterFind_Models_nf AfterFind_Azure_nf AfterFind_Vertex_nf
      AfterFind_Bedrock_nf AfterFind_Apertus_nf andThen_simps decoded_frame
      split: option.splits sum.splits)

lemma BeforeSave_Models_nf:
  "BeforeSave_Models J k =
    (case models_encoded J k of
       Inl err \<Rightarrow> (k, Some err)
     | Inr data \<Rightarrow> (k\<lparr>ModelsJSON := data\<rparr>, None))"
  by (simp add: BeforeSave_Models_def models_encoded_def split: option.splits sum.splits)

lemma BeforeSave_Azure_nf:
  "BeforeSave_Azure J k =
    (case deployments_encoded (json_Marshal_map J)
            (Option.bind (AzureKeyConfig k) AzureKeyConfig.Deployments) of
       Inl err \<Rightarrow>
         (k\<lparr>AzureEndpoint := Option.bind (AzureKeyConfig k) (\<lambda>c. nonempty (AzureKeyConfig.Endpoint c)),
            AzureAPIVersion := Option.bind (AzureKeyConfig k) APIVersion\<rparr>, Some err)
     | Inr data \<Rightarrow>
         (k\<lparr>AzureEndpoint := Option.bind (AzureKeyConfig k) (\<lambda>c. nonempty (AzureKeyConfig.Endpoint c)),
            AzureAPIVersion := Option.bind (AzureKeyConfig k) APIVersion,
            AzureDeploymentsJSON := data\<rparr>, None))"
  by (simp add: BeforeSave_Azure_def deployments_encoded_def nonempty_def Let_def
      split: option.splits sum.splits)

lemma BeforeSave_Vertex_nf:
  "BeforeSave_Vertex k =
    k\<lparr>VertexProjectID := Option.bind (VertexKeyConfig k) (\<lambda>c. nonempty (ProjectID c)),
      VertexRegion := Option.bind (VertexKeyConfig k) (\<lambda>c. nonempty (VertexKeyConfig.Region c)),
      VertexAuthCredentials := Option.bind (VertexKeyConfig k) (\<lambda>c. nonempty (AuthCredentials c))\<rparr>"
  by (simp add: BeforeSave_Vertex_def nonempty_def split: option.splits)

lemma BeforeSave_Bedrock_nf:
  "BeforeSave_Bedrock J k =
    (case deployments_encoded (sonic_Marshal_map J)
            (Option.bind (BedrockKeyConfig k) BedrockKeyConfig.Deployments) of
       Inl err \<Rightarrow>
         (k\<lparr>BedrockAccessKey := Option.bind (BedrockKeyConfig k) (\<lambda>c. nonempty (AccessKey c)),
            BedrockSecretKey := Option.bind (BedrockKeyConfig k) (\<lambda>c. nonempty (SecretKey c)),
            BedrockSessionToken := Option.bind (BedrockKeyConfig k) SessionToken,
            BedrockRegion := Option.bind (BedrockKeyConfig k) BedrockKeyConfig.Region,
            BedrockARN := Option.bind (BedrockKeyConfig k) ARN\<rparr>, Some err)
     | Inr data \<Rightarrow>
         (k\<lparr>BedrockAccessKey := Option.bind (BedrockKeyConfig k) (\<lambda>c. nonempty (AccessKey c)),
            BedrockSecretKey := Option.bind (BedrockKeyConfig k) (\<lambda>c. nonempty (SecretKey c)),
            BedrockSessionToken := Option.bind (BedrockKeyConfig k) SessionToken,
            BedrockRegion := Option.bind (BedrockKeyConfig k) BedrockKeyConfig.Region,
            BedrockARN := Option.bind (BedrockKeyConfig k) ARN,
            BedrockDeploymentsJSON := data\<rparr>, None))"
  by (simp add: BeforeSave_Bedrock_def deployments_encoded_def nonempty_def Let_def
      split: option.splits sum.splits)

lemma BeforeSave_Apertus_nf:
  "BeforeSave_Apertus k =
    k\<lparr>ApertusEndpoint :=
        Option.bind (TableKey.ApertusKeyConfig k) (\<lambda>c. nonempty (ApertusKeyConfig.Endpoint c))\<rparr>"
  by (simp add: BeforeSave_Apertus_def nonempty_def split: option.splits)

lemma TableKey_BeforeSave_success:
  assumes "models_encoded J k = Inr mj"
    and "deployments_encoded (json_Marshal_map J)
           (Option.bind (AzureKeyConfig k) AzureKeyConfig.Deployments) = Inr ad"
    and "deployments_encoded (sonic_Marshal_map J)
           (Option.bind (BedrockKeyConfig k) BedrockKeyConfig.Deployments) = Inr bd"
  shows "TableKey_BeforeSave J k =
    (k\<lparr>ModelsJSON := mj,
       AzureEndpoint := Option.bind (AzureKeyConfig k) (\<lambda>c. nonempty (AzureKeyConfig.Endpoint c)),
       AzureAPIVersion := Option.bind (AzureKeyConfig k) APIVersion,
       AzureDeploymentsJSON := ad,
       VertexProjectID := Option.bind (VertexKeyConfig k) (\<lambda>c. nonempty (ProjectID c)),
       VertexRegion := Option.bind (VertexKeyConfig k) (\<lambda>c. nonempty (VertexKeyConfig.Region c)),
       VertexAuthCredentials := Option.bind (VertexKeyConfig k) (\<lambda>c. nonempty (AuthCredentials c)),
       BedrockAccessKey := Option.bind (BedrockKeyConfig k) (\<lambda>c. nonempty (AccessKey c)),
       BedrockSecretKey := Option.bind (BedrockKeyConfig k) (\<lambda>c. nonempty (SecretKey c)),
       BedrockSessionToken := Option.bind (BedrockKeyConfig k) SessionToken,
       BedrockRegion := Option.bind (BedrockKeyConfig k) BedrockKeyConfig.Region,
       BedrockARN := Option.bind (BedrockKeyConfig k) ARN,
       BedrockDeploymentsJSON := bd,
       ApertusEndpoint :=
         Option.bind (TableKey.ApertusKeyConfig k) (\<lambda>c. nonempty (ApertusKeyConfig.Endpoint c))\<rparr>,
     None)"
  using assms
  by (simp add: TableKey_BeforeSave_def BeforeSave_Models_nf BeforeSave_Azure_nf
      BeforeSave_Vertex_nf BeforeSave_Bedrock_nf BeforeSave_Apertus_nf andThen_simps)

lemma TableKey_BeforeSave_None_iff:
  "snd (TableKey_BeforeSave J k) = None \<longleftrightarrow>
     (\<exists>mj ad bd. models_encoded J k = Inr mj
       \<and> deployments_encoded (json_Marshal_map J)
           (Option.bind (AzureKeyConfig k) AzureKeyConfig.Deployments) = Inr ad
       \<and> deployments_encoded (sonic_Marshal_map J)
           (Option.bind (BedrockKeyConfig k) BedrockKeyConfig.Deployments) = Inr bd)"
  by (simp add: TableKey_BeforeSave_def BeforeSave_Models_nf BeforeSave_Azure_nf
      BeforeSave_Vertex_nf BeforeSave_Bedrock_nf BeforeSave_Apertus_nf andThen_simps
      split: sum.splits)

lemma nonempty_get: "(case nonempty s of Some v \<Rightarrow> v | None \<Rightarrow> []) = s"
  by (simp add: nonempty_def)

lemma nonempty_None: "nonempty s = None \<longleftrightarrow> s = []"
  by (simp add: nonempty_def)

lemma round_trip_column:
  assumes "map_round_trips marshal (json_Unmarshal_map J) deployments"
  obtains column where "deployments_encoded marshal deployments = Inr column"
    and "deployments_decoded J column = Inr deployments"
    and "column = None \<longleftrightarrow> deployments = None"
    and "(case column of Some js \<Rightarrow> js \<noteq> [] | None \<Rightarrow> False) \<longleftrightarrow> deployments \<noteq> None"
  using assms
  by (auto simp: map_round_trips_def deployments_encoded_def deployments_decoded_def
      split: option.splits sum.splits)

lemma models_column:
  assumes "models_readable J (TableKey.Models k)"
  obtains data where "models_encoded J k = Inr data"
    and "data = [] \<or> snd (json_Unmarshal_strings J data None) = None"
  using assms
  by (auto simp: models_readable_def models_encoded_def split: option.splits sum.splits)

lemma vertex_decoded_encoded:
  assumes "VertexProjectID r = Option.bind cfg (\<lambda>c. nonempty (ProjectID c))"
    and "VertexRegion r = Option.bind cfg (\<lambda>c. nonempty (VertexKeyConfig.Region c))"
    and "VertexAuthCredentials r = Option.bind cfg (\<lambda>c. nonempty (AuthCredentials c))"
    and "VertexKeyConfig r = None"
  shows "vertex_decoded r = vertex_normalized cfg"
proof (cases cfg)
  case None
  with assms show ?thesis
    by (simp add: vertex_decoded_def vertex_normalized_def)
next
  case (Some c)
  have c: "\<lparr>ProjectID = ProjectID c, Region = VertexKeyConfig.Region c,
            AuthCredentials = AuthCredentials c\<rparr> = c"
    by (cases c) simp
  from Some assms c show ?thesis
    by (simp add: vertex_decoded_def vertex_normalized_def nonempty_get nonempty_None)
qed

lemma apertus_decoded_encoded:
  assumes "ApertusEndpoint r = Option.bind cfg (\<lambda>c. nonempty (ApertusKeyConfig.Endpoint c))"
    and "TableKey.ApertusKeyConfig r = None"
  shows "apertus_decoded r =
    (case cfg of
       Some c \<Rightarrow>
         if ApertusKeyConfig.Endpoint c \<noteq> []
         then Some \<lparr>ApertusKeyConfig.Endpoint = ApertusKeyConfig.Endpoint c,
                    ModelNameMappings = None\<rparr>
         else None
     | None \<Rightarrow> None)"
  using assms
  by (cases cfg) (simp_all add: apertus_decoded_def nonempty_def)

lemma azure_decoded_encoded:
  assumes "AzureEndpoint r = Option.bind cfg (\<lambda>c. nonempty (AzureKeyConfig.Endpoint c))"
    and "AzureAPIVersion r = Option.bind cfg APIVersion"
    and "deployments_decoded J (AzureDeploymentsJSON r)
           = Inr (Option.bind cfg AzureKeyConfig.Deployments)"
    and "AzureKeyConfig r = None"
  shows "azure_decoded J r =
    Inr (case cfg of
           Some c \<Rightarrow> if AzureKeyConfig.Endpoint c \<noteq> [] then Some c else None
         | None \<Rightarrow> None)"
proof (cases cfg)
  case None
  with assms show ?thesis
    by (simp add: azure_decoded_def)
next
  case (Some c)
  have c: "\<lparr>AzureKeyConfig.Endpoint = AzureKeyConfig.Endpoint c,
            Deployments = AzureKeyConfig.Deployments c, APIVersion = APIVersion c\<rparr> = c"
    by (cases c) simp
  from Some assms c show ?thesis
    by (simp add: azure_decoded_def nonempty_def)
qed

lemma bedrock_decoded_encoded:
  assumes "BedrockAccessKey r = Option.bind cfg (\<lambda>c. nonempty (AccessKey c))"
    and "BedrockSecretKey r = Option.bind cfg (\<lambda>c. nonempty (SecretKey c))"
    and "BedrockSessionToken r = Option.bind cfg SessionToken"
    and "BedrockRegion r = Option.bind cfg BedrockKeyConfig.Region"
    and "BedrockARN r = Option.bind cfg ARN"
    and "deployments_decoded J (BedrockDeploymentsJSON r)
           = Inr (Option.bind cfg BedrockKeyConfig.Deployments)"
    and "(case BedrockDeploymentsJSON r of Some js \<Rightarrow> js \<noteq> [] | None \<Rightarrow> False)
           \<longleftrightarrow> Option.bind cfg BedrockKeyConfig.Deployments \<noteq> None"
    and "BedrockKeyConfig r = None"
  shows "bedrock_decoded J r = Inr (bedrock_read_back cfg)"
proof (cases cfg)
  case None
  with assms show ?thesis
    by (simp add: bedrock_decoded_def bedrock_present_def bedrock_read_back_def bedrock_is_zero_def)
next
  case (Some c)
  have c: "\<lparr>AccessKey = AccessKey c, SecretKey = SecretKey c, SessionToken = SessionToken c,
            Region = BedrockKeyConfig.Region c, ARN = ARN c,
            Deployments = BedrockKeyConfig.Deployments c\<rparr> = c"
    by (cases c) simp
  have present: "bedrock_present r \<longleftrightarrow> bedrock_read_back cfg \<noteq> None"
    using Some assms
    by (simp add: bedrock_present_def bedrock_read_back_def bedrock_is_zero_def nonempty_None)
  show ?thesis
  proof (cases "bedrock_present r")
    case True
    with present Some have "bedrock_read_back cfg = Some c"
      by (simp add: bedrock_read_back_def bedrock_is_zero_def split: if_splits)
    with True Some assms c show ?thesis
      by (simp add: bedrock_decoded_def nonempty_get)
  next
    case False
    with present have "bedrock_read_back cfg = None"
      by simp
    with False assms show ?thesis
      by (simp add: bedrock_decoded_def)
  qed
qed

lemma bind_case: "(case cfg of Some c \<Rightarrow> f c | None \<Rightarrow> None) = Option.bind cfg f"
  by (cases cfg) simp_all

lemma example_json_maps:
  "json_Marshal_map example_json [''gpt-4o'' \<mapsto> ''prod-deploy-1''] = Inr ''{gpt-4o:prod-deploy-1}''"
  "sonic_Marshal_map example_json [''gpt-4o'' \<mapsto> ''prod-deploy-1''] = Inr ''{gpt-4o:prod-deploy-1}''"
  "json_Unmarshal_map example_json ''{gpt-4o:prod-deploy-1}''
     = Inr (Some [''gpt-4o'' \<mapsto> ''prod-deploy-1''])"
  "json_Marshal_strings example_json [''gpt-4o''] = Inr ''[gpt-4o;]''"
  "json_Unmarshal_strings example_json ''[gpt-4o;]'' old = (Some [''gpt-4o''], None)"
  "json_Unmarshal_strings example_json ''[]'' old = (Some [], None)"
  by (simp_all add: example_json_def)

text \<open>
  C1, as stated, fails. An Azure override with an API version and no endpoint is saved with
  a null endpoint column and its API version column set; the read reconstructs an Azure
  override only from a non-null endpoint column, so the value read back is the absent one,
  although the value saved does not normalize to the absent one. A Bedrock override whose
  only content is a session token pointing at the empty string normalizes to the absent
  value, yet it is saved with a session token column that is not null, and read back as a
  present override. An Apertus override with a model mapping is read back without it: the
  key table has no column for the mappings.
\<close>

theorem round_trip_counterexample:
  "azure_normalized (AzureKeyConfig azure_version_row)
     = Some \<lparr>AzureKeyConfig.Endpoint = [], Deployments = None, APIVersion = Some ''2024-02-01''\<rparr>
   \<and> snd (TableKey_BeforeSave example_json azure_version_row) = None
   \<and> AzureAPIVersion (fst (TableKey_BeforeSave example_json azure_version_row))
       = Some ''2024-02-01''
   \<and> snd (TableKey_AfterFind example_json
            (scanned (fst (TableKey_BeforeSave example_json azure_version_row)))) = None
   \<and> AzureKeyConfig (fst (TableKey_AfterFind example_json
            (scanned (fst (TableKey_BeforeSave example_json azure_version_row))))) = None
   \<and> bedrock_normalized (BedrockKeyConfig bedrock_pointer_row) = None
   \<and> snd (TableKey_BeforeSave example_json bedrock_pointer_row) = None
   \<and> BedrockSessionToken (fst (TableKey_BeforeSave example_json bedrock_pointer_row))
       = Some []
   \<and> snd (TableKey_AfterFind example_json
            (scanned (fst (TableKey_BeforeSave example_json bedrock_pointer_row)))) = None
   \<and> BedrockKeyConfig (fst (TableKey_AfterFind example_json
            (scanned (fst (TableKey_BeforeSave example_json bedrock_pointer_row)))))
       = Some \<lparr>AccessKey = [], SecretKey = [], SessionToken = Some [], Region = None,
                ARN = None, Deployments = None\<rparr>
   \<and> snd (TableKey_BeforeSave example_json apertus_mapped_row) = None
   \<and> snd (TableKey_AfterFind example_json
            (scanned (fst (TableKey_BeforeSave example_json apertus_mapped_row)))) = None
   \<and> TableKey.ApertusKeyConfig (fst (TableKey_AfterFind example_json
            (scanned (fst (TableKey_BeforeSave example_json apertus_mapped_row)))))
       = Some \<lparr>ApertusKeyConfig.Endpoint = ''https://custom.example.com'',
                ModelNameMappings = None\<rparr>"
proof -
  have asave: "TableKey_BeforeSave example_json apertus_mapped_row
    = (apertus_mapped_row\<lparr>ModelsJSON := ''[]'',
         ApertusEndpoint := Some ''https://custom.example.com''\<rparr>, None)"
    by (simp add: TableKey_BeforeSave_def BeforeSave_Models_def BeforeSave_Azure_def
        BeforeSave_Vertex_def BeforeSave_Bedrock_def BeforeSave_Apertus_def andThen_simps
        apertus_mapped_row_def empty_row_def Let_def)
  have afind: "TableKey_AfterFind example_json
      (scanned (apertus_mapped_row\<lparr>ModelsJSON := ''[]'',
         ApertusEndpoint := Some ''https://custom.example.com''\<rparr>))
    = ((scanned (apertus_mapped_row\<lparr>ModelsJSON := ''[]'',
          ApertusEndpoint := Some ''https://custom.example.com''\<rparr>))\<lparr>
          TableKey.Models := Some [],
          TableKey.ApertusKeyConfig :=
            Some \<lparr>ApertusKeyConfig.Endpoint = ''https://custom.example.com'',
                  ModelNameMappings = None\<rparr>\<rparr>, None)"
    by (simp add: TableKey_AfterFind_def AfterFind_Models_def AfterFind_Azure_def
        AfterFind_Vertex_def AfterFind_Bedrock_def AfterFind_Apertus_def andThen_simps
        apertus_mapped_row_def empty_row_def scanned_def example_json_maps Let_def)
  have save: "TableKey_BeforeSave example_json azure_version_row
    = (azure_version_row\<lparr>ModelsJSON := ''[]'', AzureAPIVersion := Some ''2024-02-01''\<rparr>, None)"
    by (simp add: TableKey_BeforeSave_def BeforeSave_Models_def BeforeSave_Azure_def
        BeforeSave_Vertex_def BeforeSave_Bedrock_def BeforeSave_Apertus_def andThen_simps
        azure_version_row_def empty_row_def Let_def)
  have find: "TableKey_AfterFind example_json
      (scanned (azure_version_row\<lparr>ModelsJSON := ''[]'', AzureAPIVersion := Some ''2024-02-01''\<rparr>))
    = ((scanned (azure_version_row\<lparr>ModelsJSON := ''[]'',
          AzureAPIVersion := Some ''2024-02-01''\<rparr>))\<lparr>TableKey.Models := Some []\<rparr>, None)"
    by (simp add: TableKey_AfterFind_def AfterFind_Models_def AfterFind_Azure_def
        AfterFind_Vertex_def AfterFind_Bedrock_def AfterFind_Apertus_def andThen_simps
        azure_version_row_def empty_row_def scanned_def example_json_maps)
  have bsave: "TableKey_BeforeSave example_json bedrock_pointer_row
    = (bedrock_pointer_row\<lparr>ModelsJSON := ''[]'', BedrockSessionToken := Some []\<rparr>, None)"
    by (simp add: TableKey_BeforeSave_def BeforeSave_Models_def BeforeSave_Azure_def
        BeforeSave_Vertex_def BeforeSave_Bedrock_def BeforeSave_Apertus_def andThen_simps
        bedrock_pointer_row_def empty_row_def Let_def)
  have bfind: "TableKey_AfterFind example_json
      (scanned (bedrock_pointer_row\<lparr>ModelsJSON := ''[]'', BedrockSessionToken := Some []\<rparr>))
    = ((scanned (bedrock_pointer_row\<lparr>ModelsJSON := ''[]'',
          BedrockSessionToken := Some []\<rparr>))\<lparr>TableKey.Models := Some [],
          BedrockKeyConfig := Some \<lparr>AccessKey = [], SecretKey = [], SessionToken = Some [],
                                      Region = None, ARN = None, Deployments = None\<rparr>\<rparr>, None)"
    by (simp add: TableKey_AfterFind_def AfterFind_Models_def AfterFind_Azure_def
        AfterFind_Vertex_def AfterFind_Bedrock_def AfterFind_Apertus_def andThen_simps
        bedrock_pointer_row_def empty_row_def scanned_def example_json_maps Let_def)
  have norm: "bedrock_normalized (BedrockKeyConfig bedrock_pointer_row) = None"
    by (simp add: bedrock_normalized_def normalized_pointer_def normalized_map_def
        bedrock_pointer_row_def empty_row_def Let_def)
  show ?thesis
    unfolding save find bsave bfind asave afind fst_conv snd_conv norm
    by (simp add: azure_normalized_def normalized_pointer_def normalized_map_def Let_def
        azure_version_row_def bedrock_pointer_row_def empty_row_def scanned_def)
qed

lemma bedrock_normalized_read_back:
  "bedrock_normalized (bedrock_read_back cfg) = bedrock_normalized cfg"
  by (cases cfg)
     (simp_all add: bedrock_read_back_def bedrock_is_zero_def bedrock_normalized_def
        normalized_pointer_def normalized_map_def Let_def)

text \<open>
  C1, amended. Take a key row whose deployments maps and model list the JSON library writes
  and reads back. Saving it succeeds, and reading the saved columns into a fresh row
  succeeds and gives the following.
  Azure: the override as it was when its endpoint is not empty, the absent value otherwise;
  that is equal to the original after normalization exactly when the endpoint is not empty
  or the original normalizes to the absent value.
  Vertex: the override as it was, the absent value when it is all-empty.
  Bedrock: the override as it was unless it is the zero value, which is read back as the
  absent value; in both cases that is equal to the original after normalization.
  Apertus: the endpoint column holds the endpoint when it is not empty and is null
  otherwise; the value read back is absent exactly when that column is null; an override
  with a non-empty endpoint is read back as an override with that endpoint; an override
  without mapping entries is read back equal to the original after normalization. What
  becomes of mapping entries is not stated.
  The columns of a group are all null exactly when its override is absent or the zero value:
  a pointer to the empty string or an empty map that is not nil is saved as a column that is
  not null.
\<close>

theorem override_round_trip:
  assumes models: "models_readable J (TableKey.Models k)"
    and azure: "map_round_trips (json_Marshal_map J) (json_Unmarshal_map J)
        (case AzureKeyConfig k of Some c \<Rightarrow> AzureKeyConfig.Deployments c | None \<Rightarrow> None)"
    and bedrock: "map_round_trips (sonic_Marshal_map J) (json_Unmarshal_map J)
        (case BedrockKeyConfig k of Some c \<Rightarrow> BedrockKeyConfig.Deployments c | None \<Rightarrow> None)"
  shows "\<exists>k' k''.
      TableKey_BeforeSave J k = (k', None)
    \<and> TableKey_AfterFind J (scanned k') = (k'', None)
    \<and> AzureKeyConfig k'' =
        (case AzureKeyConfig k of
           Some c \<Rightarrow> if AzureKeyConfig.Endpoint c \<noteq> [] then Some c else None
         | None \<Rightarrow> None)
    \<and> (azure_normalized (AzureKeyConfig k'') = azure_normalized (AzureKeyConfig k) \<longleftrightarrow>
          (case AzureKeyConfig k of
             Some c \<Rightarrow> AzureKeyConfig.Endpoint c \<noteq> [] \<or> azure_normalized (Some c) = None
           | None \<Rightarrow> True))
    \<and> (AzureEndpoint k' = None \<and> AzureAPIVersion k' = None \<and> AzureDeploymentsJSON k' = None
          \<longleftrightarrow> (case AzureKeyConfig k of Some c \<Rightarrow> azure_is_zero c | None \<Rightarrow> True))
    \<and> VertexKeyConfig k'' = vertex_normalized (VertexKeyConfig k)
    \<and> (VertexProjectID k' = None \<and> VertexRegion k' = None \<and> VertexAuthCredentials k' = None
          \<longleftrightarrow> vertex_normalized (VertexKeyConfig k) = None)
    \<and> BedrockKeyConfig k'' = bedrock_read_back (BedrockKeyConfig k)
    \<and> bedrock_normalized (BedrockKeyConfig k'') = bedrock_normalized (BedrockKeyConfig k)
    \<and> (BedrockAccessKey k' = None \<and> BedrockSecretKey k' = None
          \<and> BedrockSessionToken k' = None \<and> BedrockRegion k' = None \<and> BedrockARN k' = None
          \<and> BedrockDeploymentsJSON k' = None
          \<longleftrightarrow> bedrock_read_back (BedrockKeyConfig k) = None)
    \<and> ApertusEndpoint k' =
        (case TableKey.ApertusKeyConfig k of
           Some c \<Rightarrow> if ApertusKeyConfig.Endpoint c \<noteq> []
                     then Some (ApertusKeyConfig.Endpoint c) else None
         | None \<Rightarrow> None)
    \<and> (TableKey.ApertusKeyConfig k'' = None \<longleftrightarrow> ApertusEndpoint k' = None)
    \<and> (case TableKey.ApertusKeyConfig k of
          Some c \<Rightarrow>
            (ApertusKeyConfig.Endpoint c \<noteq> [] \<longrightarrow>
              (\<exists>c''. TableKey.ApertusKeyConfig k'' = Some c''
                 \<and> ApertusKeyConfig.Endpoint c'' = ApertusKeyConfig.Endpoint c))
            \<and> ((case ModelNameMappings c of Some m \<Rightarrow> m = Map.empty | None \<Rightarrow> True) \<longrightarrow>
                TableKey.ApertusKeyConfig k'' = apertus_normalized (Some c))
        | None \<Rightarrow> TableKey.ApertusKeyConfig k'' = None)"
proof -
  let ?azd = "Option.bind (AzureKeyConfig k) AzureKeyConfig.Deployments"
  let ?bdd = "Option.bind (BedrockKeyConfig k) BedrockKeyConfig.Deployments"
  obtain mj where mj: "models_encoded J k = Inr mj"
    and mj_ok: "mj = [] \<or> snd (json_Unmarshal_strings J mj None) = None"
    using models by (rule models_column)
  obtain ad where ad: "deployments_encoded (json_Marshal_map J) ?azd = Inr ad"
    and ad_back: "deployments_decoded J ad = Inr ?azd"
    and ad_none: "ad = None \<longleftrightarrow> ?azd = None"
    using azure unfolding bind_case by (rule round_trip_column)
  obtain bd where bd: "deployments_encoded (sonic_Marshal_map J) ?bdd = Inr bd"
    and bd_back: "deployments_decoded J bd = Inr ?bdd"
    and bd_none: "bd = None \<longleftrightarrow> ?bdd = None"
    and bd_present: "(case bd of Some js \<Rightarrow> js \<noteq> [] | None \<Rightarrow> False) \<longleftrightarrow> ?bdd \<noteq> None"
    using bedrock unfolding bind_case by (rule round_trip_column)
  define k' where "k' =
    k\<lparr>ModelsJSON := mj,
       AzureEndpoint := Option.bind (AzureKeyConfig k) (\<lambda>c. nonempty (AzureKeyConfig.Endpoint c)),
       AzureAPIVersion := Option.bind (AzureKeyConfig k) APIVersion,
       AzureDeploymentsJSON := ad,
       VertexProjectID := Option.bind (VertexKeyConfig k) (\<lambda>c. nonempty (ProjectID c)),
       VertexRegion := Option.bind (VertexKeyConfig k) (\<lambda>c. nonempty (VertexKeyConfig.Region c)),
       VertexAuthCredentials := Option.bind (VertexKeyConfig k) (\<lambda>c. nonempty (AuthCredentials c)),
       BedrockAccessKey := Option.bind (BedrockKeyConfig k) (\<lambda>c. nonempty (AccessKey c)),
       BedrockSecretKey := Option.bind (BedrockKeyConfig k) (\<lambda>c. nonempty (SecretKey c)),
       BedrockSessionToken := Option.bind (BedrockKeyConfig k) SessionToken,
       BedrockRegion := Option.bind (BedrockKeyConfig k) BedrockKeyConfig.Region,
       BedrockARN := Option.bind (BedrockKeyConfig k) ARN,
       BedrockDeploymentsJSON := bd,
       ApertusEndpoint :=
         Option.bind (TableKey.ApertusKeyConfig k) (\<lambda>c. nonempty (ApertusKeyConfig.Endpoint c))\<rparr>"
  have save: "TableKey_BeforeSave J k = (k', None)"
    unfolding k'_def using mj ad bd by (rule TableKey_BeforeSave_success)
  let ?r = "scanned k'"
  have m: "snd (models_decoded J ?r) = None"
    using mj_ok by (auto simp: models_decoded_def scanned_def k'_def)
  have az: "azure_decoded J ?r =
      Inr (case AzureKeyConfig k of
             Some c \<Rightarrow> if AzureKeyConfig.Endpoint c \<noteq> [] then Some c else None
           | None \<Rightarrow> None)"
    by (rule azure_decoded_encoded) (simp_all add: scanned_def k'_def ad_back)
  have vx: "vertex_decoded ?r = vertex_normalized (VertexKeyConfig k)"
    by (rule vertex_decoded_encoded) (simp_all add: scanned_def k'_def)
  have bk: "bedrock_decoded J ?r = Inr (bedrock_read_back (BedrockKeyConfig k))"
    by (rule bedrock_decoded_encoded) (simp_all add: scanned_def k'_def bd_back bd_present)
  have ap: "apertus_decoded ?r =
      (case TableKey.ApertusKeyConfig k of
         Some c \<Rightarrow>
           if ApertusKeyConfig.Endpoint c \<noteq> []
           then Some \<lparr>ApertusKeyConfig.Endpoint = ApertusKeyConfig.Endpoint c,
                      ModelNameMappings = None\<rparr>
           else None
       | None \<Rightarrow> None)"
    by (rule apertus_decoded_encoded) (simp_all add: scanned_def k'_def)
  define k'' where "k'' =
    ?r\<lparr>TableKey.Models := fst (models_decoded J ?r),
        AzureKeyConfig := (case AzureKeyConfig k of
             Some c \<Rightarrow> if AzureKeyConfig.Endpoint c \<noteq> [] then Some c else None
           | None \<Rightarrow> None),
        VertexKeyConfig := vertex_normalized (VertexKeyConfig k),
        BedrockKeyConfig := bedrock_read_back (BedrockKeyConfig k),
        TableKey.ApertusKeyConfig := apertus_decoded ?r\<rparr>"
  have find: "TableKey_AfterFind J ?r = (k'', None)"
    unfolding TableKey_AfterFind_nf [of J ?r] k''_def by (simp add: m az vx bk)
  have fields: "AzureKeyConfig k'' =
        (case AzureKeyConfig k of
           Some c \<Rightarrow> if AzureKeyConfig.Endpoint c \<noteq> [] then Some c else None
         | None \<Rightarrow> None)"
      "VertexKeyConfig k'' = vertex_normalized (VertexKeyConfig k)"
      "BedrockKeyConfig k'' = bedrock_read_back (BedrockKeyConfig k)"
      "TableKey.ApertusKeyConfig k'' = apertus_decoded ?r"
    by (simp_all add: k''_def)
  have azure_norm: "azure_normalized (AzureKeyConfig k'') = azure_normalized (AzureKeyConfig k)
      \<longleftrightarrow> (case AzureKeyConfig k of
             Some c \<Rightarrow> AzureKeyConfig.Endpoint c \<noteq> [] \<or> azure_normalized (Some c) = None
           | None \<Rightarrow> True)"
  proof (cases "AzureKeyConfig k")
    case None
    then show ?thesis by (simp add: fields(1))
  next
    case (Some c)
    have "azure_normalized None = None"
      by (simp add: azure_normalized_def)
    with Some show ?thesis
      by (cases "AzureKeyConfig.Endpoint c = []") (auto simp: fields(1))
  qed
  have azure_cols: "AzureEndpoint k' = None \<and> AzureAPIVersion k' = None
      \<and> AzureDeploymentsJSON k' = None
      \<longleftrightarrow> (case AzureKeyConfig k of Some c \<Rightarrow> azure_is_zero c | None \<Rightarrow> True)"
    using ad_none
    by (cases "AzureKeyConfig k") (auto simp: k'_def azure_is_zero_def nonempty_def)
  have vertex_cols: "VertexProjectID k' = None \<and> VertexRegion k' = None
      \<and> VertexAuthCredentials k' = None
      \<longleftrightarrow> vertex_normalized (VertexKeyConfig k) = None"
    by (cases "VertexKeyConfig k") (auto simp: k'_def vertex_normalized_def nonempty_def)
  have bedrock_norm: "bedrock_normalized (BedrockKeyConfig k'')
      = bedrock_normalized (BedrockKeyConfig k)"
    unfolding fields(3) by (rule bedrock_normalized_read_back)
  have bedrock_cols: "BedrockAccessKey k' = None \<and> BedrockSecretKey k' = None
      \<and> BedrockSessionToken k' = None \<and> BedrockRegion k' = None \<and> BedrockARN k' = None
      \<and> BedrockDeploymentsJSON k' = None
      \<longleftrightarrow> bedrock_read_back (BedrockKeyConfig k) = None"
    using bd_none
    by (cases "BedrockKeyConfig k")
       (auto simp: k'_def bedrock_read_back_def bedrock_is_zero_def nonempty_def)
  have apertus_col: "ApertusEndpoint k' =
        (case TableKey.ApertusKeyConfig k of
           Some c \<Rightarrow> if ApertusKeyConfig.Endpoint c \<noteq> []
                     then Some (ApertusKeyConfig.Endpoint c) else None
         | None \<Rightarrow> None)"
    by (cases "TableKey.ApertusKeyConfig k") (simp_all add: k'_def nonempty_def)
  have apertus_absent: "TableKey.ApertusKeyConfig k'' = None \<longleftrightarrow> ApertusEndpoint k' = None"
    unfolding apertus_col fields(4) ap
    by (cases "TableKey.ApertusKeyConfig k") simp_all
  have apertus: "(case TableKey.ApertusKeyConfig k of
          Some c \<Rightarrow>
            (ApertusKeyConfig.Endpoint c \<noteq> [] \<longrightarrow>
              (\<exists>c''. TableKey.ApertusKeyConfig k'' = Some c''
                 \<and> ApertusKeyConfig.Endpoint c'' = ApertusKeyConfig.Endpoint c))
            \<and> ((case ModelNameMappings c of Some m \<Rightarrow> m = Map.empty | None \<Rightarrow> True) \<longrightarrow>
                TableKey.ApertusKeyConfig k'' = apertus_normalized (Some c))
        | None \<Rightarrow> TableKey.ApertusKeyConfig k'' = None)"
  proof (cases "TableKey.ApertusKeyConfig k")
    case None
    then show ?thesis by (simp add: fields(4) ap)
  next
    case (Some c)
    have 1: "ApertusKeyConfig.Endpoint c \<noteq> [] \<longrightarrow>
              (\<exists>c''. TableKey.ApertusKeyConfig k'' = Some c''
                 \<and> ApertusKeyConfig.Endpoint c'' = ApertusKeyConfig.Endpoint c)"
      using Some by (simp add: fields(4) ap)
    have 2: "(case ModelNameMappings c of Some m \<Rightarrow> m = Map.empty | None \<Rightarrow> True) \<longrightarrow>
                TableKey.ApertusKeyConfig k'' = apertus_normalized (Some c)"
    proof
      assume "case ModelNameMappings c of Some m \<Rightarrow> m = Map.empty | None \<Rightarrow> True"
      then have n: "normalized_map (ModelNameMappings c) = None"
        by (auto simp: normalized_map_def split: option.splits)
      have "c\<lparr>ModelNameMappings := None\<rparr>
          = \<lparr>ApertusKeyConfig.Endpoint = ApertusKeyConfig.Endpoint c, ModelNameMappings = None\<rparr>"
        by (cases c) simp
      with n Some show "TableKey.ApertusKeyConfig k'' = apertus_normalized (Some c)"
        by (simp add: fields(4) ap apertus_normalized_def Let_def)
    qed
    from Some 1 2 show ?thesis by simp
  qed
  show ?thesis
    by (rule exI [of _ k'], rule exI [of _ k''], intro conjI)
       (rule save find fields(1) fields(2) fields(3) azure_norm azure_cols vertex_cols
          bedrock_norm bedrock_cols apertus_col apertus_absent apertus)+
qed

theorem override_round_trip_witness:
  "models_readable example_json (TableKey.Models full_row)
   \<and> map_round_trips (json_Marshal_map example_json) (json_Unmarshal_map example_json)
        (case AzureKeyConfig full_row of
           Some c \<Rightarrow> AzureKeyConfig.Deployments c | None \<Rightarrow> None)
   \<and> map_round_trips (sonic_Marshal_map example_json) (json_Unmarshal_map example_json)
        (case BedrockKeyConfig full_row of
           Some c \<Rightarrow> BedrockKeyConfig.Deployments c | None \<Rightarrow> None)
   \<and> (\<exists>k' k''.
        TableKey_BeforeSave example_json full_row = (k', None)
      \<and> TableKey_AfterFind example_json (scanned k') = (k'', None)
      \<and> AzureKeyConfig k'' = AzureKeyConfig full_row
      \<and> VertexKeyConfig k'' = VertexKeyConfig full_row
      \<and> BedrockKeyConfig k'' = BedrockKeyConfig full_row
      \<and> TableKey.ApertusKeyConfig k'' = TableKey.ApertusKeyConfig full_row
      \<and> ApertusEndpoint k' = Some ''https://custom.example.com/'')"
proof -
  have h1: "models_readable example_json (TableKey.Models full_row)"
    by (simp add: models_readable_def full_row_def empty_row_def example_json_maps)
  have h2: "map_round_trips (json_Marshal_map example_json) (json_Unmarshal_map example_json)
        (case AzureKeyConfig full_row of
           Some c \<Rightarrow> AzureKeyConfig.Deployments c | None \<Rightarrow> None)"
    by (simp add: map_round_trips_def full_row_def empty_row_def example_json_maps)
  have h3: "map_round_trips (sonic_Marshal_map example_json) (json_Unmarshal_map example_json)
        (case BedrockKeyConfig full_row of
           Some c \<Rightarrow> BedrockKeyConfig.Deployments c | None \<Rightarrow> None)"
    by (simp add: map_round_trips_def full_row_def empty_row_def example_json_maps)
  have az: "(case AzureKeyConfig full_row of
           Some c \<Rightarrow> if AzureKeyConfig.Endpoint c \<noteq> [] then Some c else None
         | None \<Rightarrow> None) = AzureKeyConfig full_row"
    by (simp add: full_row_def empty_row_def)
  have vx: "vertex_normalized (VertexKeyConfig full_row) = VertexKeyConfig full_row"
    by (simp add: vertex_normalized_def full_row_def empty_row_def)
  have bk: "bedrock_read_back (BedrockKeyConfig full_row) = BedrockKeyConfig full_row"
    by (simp add: bedrock_read_back_def bedrock_is_zero_def full_row_def empty_row_def)
  have apn: "apertus_normalized
        (Some \<lparr>ApertusKeyConfig.Endpoint = ''https://custom.example.com/'',
               ModelNameMappings = None\<rparr>)
      = Some \<lparr>ApertusKeyConfig.Endpoint = ''https://custom.example.com/'',
               ModelNameMappings = None\<rparr>"
    by (simp add: apertus_normalized_def normalized_map_def Let_def)
  from override_round_trip [OF h1 h2 h3]
  obtain k' k'' where r:
      "TableKey_BeforeSave example_json full_row = (k', None)"
      "TableKey_AfterFind example_json (scanned k') = (k'', None)"
      "AzureKeyConfig k'' =
        (case AzureKeyConfig full_row of
           Some c \<Rightarrow> if AzureKeyConfig.Endpoint c \<noteq> [] then Some c else None
         | None \<Rightarrow> None)"
      "VertexKeyConfig k'' = vertex_normalized (VertexKeyConfig full_row)"
      "BedrockKeyConfig k'' = bedrock_read_back (BedrockKeyConfig full_row)"
      "ApertusEndpoint k' =
        (case TableKey.ApertusKeyConfig full_row of
           Some c \<Rightarrow> if ApertusKeyConfig.Endpoint c \<noteq> []
                     then Some (ApertusKeyConfig.Endpoint c) else None
         | None \<Rightarrow> None)"
      "(case TableKey.ApertusKeyConfig full_row of
          Some c \<Rightarrow>
            (ApertusKeyConfig.Endpoint c \<noteq> [] \<longrightarrow>
              (\<exists>c''. TableKey.ApertusKeyConfig k'' = Some c''
                 \<and> ApertusKeyConfig.Endpoint c'' = ApertusKeyConfig.Endpoint c))
            \<and> ((case ModelNameMappings c of Some m \<Rightarrow> m = Map.empty | None \<Rightarrow> True) \<longrightarrow>
                TableKey.ApertusKeyConfig k'' = apertus_normalized (Some c))
        | None \<Rightarrow> TableKey.ApertusKeyConfig k'' = None)"
    by blast
  have ap: "TableKey.ApertusKeyConfig k'' = TableKey.ApertusKeyConfig full_row"
    using r(7) by (simp add: full_row_def empty_row_def apn)
  have col: "ApertusEndpoint k' = Some ''https://custom.example.com/''"
    using r(6) by (simp add: full_row_def empty_row_def)
  show ?thesis
    using h1 h2 h3 r(1) r(2) r(3) [unfolded az] r(4) [unfolded vx] r(5) [unfolded bk] ap col
    by blast
qed

section \<open>Reconstruction after a read\<close>

lemma azure_decoded_scanned:
  "azure_decoded J (scanned r) = Inr az \<Longrightarrow> (az \<noteq> None \<longleftrightarrow> AzureEndpoint r \<noteq> None)"
  "azure_decoded J (scanned r) = Inl err \<longleftrightarrow>
     AzureEndpoint r \<noteq> None
     \<and> (\<exists>js. AzureDeploymentsJSON r = Some js \<and> json_Unmarshal_map J js = Inl err)"
  by (auto simp: azure_decoded_def deployments_decoded_def scanned_def
      split: option.splits sum.splits)

lemma bedrock_decoded_scanned:
  "bedrock_decoded J (scanned r) = Inr bd \<Longrightarrow> (bd \<noteq> None \<longleftrightarrow> bedrock_present r)"
  "bedrock_decoded J (scanned r) = Inl err \<longleftrightarrow>
     bedrock_present r
     \<and> (\<exists>js. BedrockDeploymentsJSON r = Some js \<and> json_Unmarshal_map J js = Inl err)"
  by (auto simp: bedrock_decoded_def bedrock_present_def deployments_decoded_def scanned_def
      split: option.splits sum.splits if_splits)

lemma vertex_decoded_scanned:
  "vertex_decoded (scanned r) \<noteq> None \<longleftrightarrow>
     VertexProjectID r \<noteq> None \<or> VertexRegion r \<noteq> None \<or> VertexAuthCredentials r \<noteq> None"
  by (simp add: vertex_decoded_def scanned_def)

lemma apertus_decoded_scanned:
  "apertus_decoded (scanned r) \<noteq> None \<longleftrightarrow> ApertusEndpoint r \<noteq> None"
  by (simp add: apertus_decoded_def scanned_def split: option.splits)

lemma models_decoded_scanned:
  "snd (models_decoded J (scanned r)) =
     (if ModelsJSON r \<noteq> [] then snd (json_Unmarshal_strings J (ModelsJSON r) None) else None)"
  by (simp add: models_decoded_def scanned_def)

lemma scanned_virtuals:
  "AzureKeyConfig (scanned r) = None" "VertexKeyConfig (scanned r) = None"
  "BedrockKeyConfig (scanned r) = None" "TableKey.ApertusKeyConfig (scanned r) = None"
  by (simp_all add: scanned_def)

lemma AfterFind_ok_fields:
  assumes "TableKey_AfterFind J k = (k', None)"
  shows "azure_decoded J k = Inr (AzureKeyConfig k')"
    and "VertexKeyConfig k' = vertex_decoded k"
    and "bedrock_decoded J k = Inr (BedrockKeyConfig k')"
    and "TableKey.ApertusKeyConfig k' = apertus_decoded k"
  using assms unfolding TableKey_AfterFind_nf [of J k]
  by (auto split: option.splits sum.splits)

lemma AfterFind_failed_cases:
  assumes "TableKey_AfterFind J k = (k', Some err)"
  shows "BedrockKeyConfig k' = BedrockKeyConfig k
    \<and> TableKey.ApertusKeyConfig k' = TableKey.ApertusKeyConfig k
    \<and> ((snd (models_decoded J k) = Some err
          \<and> AzureKeyConfig k' = AzureKeyConfig k \<and> VertexKeyConfig k' = VertexKeyConfig k)
        \<or> (azure_decoded J k = Inl err
          \<and> AzureKeyConfig k' = AzureKeyConfig k \<and> VertexKeyConfig k' = VertexKeyConfig k)
        \<or> bedrock_decoded J k = Inl err)"
  using assms unfolding TableKey_AfterFind_nf [of J k]
  by (auto split: option.splits sum.splits)

lemma AfterFind_fails_if:
  "azure_decoded J k = Inl err \<or> bedrock_decoded J k = Inl err
    \<Longrightarrow> snd (TableKey_AfterFind J k) \<noteq> None"
  unfolding TableKey_AfterFind_nf [of J k]
  by (auto split: option.splits sum.splits)


text \<open>
  C8, as stated, fails. A row whose Azure group has its API version and deployments columns
  set and its endpoint column null is read without error and without an Azure override; a
  row whose only non-null column is a Bedrock deployments column holding the empty text is
  read without a Bedrock override.
\<close>

theorem non_endpoint_columns_counterexample:
  "snd (TableKey_AfterFind example_json
      (scanned (empty_row\<lparr>AzureAPIVersion := Some ''2024-02-01'',
                          AzureDeploymentsJSON := Some ''{gpt-4o:prod-deploy-1}''\<rparr>))) = None
   \<and> AzureKeyConfig (fst (TableKey_AfterFind example_json
      (scanned (empty_row\<lparr>AzureAPIVersion := Some ''2024-02-01'',
                          AzureDeploymentsJSON := Some ''{gpt-4o:prod-deploy-1}''\<rparr>)))) = None
   \<and> snd (TableKey_AfterFind example_json
      (scanned (empty_row\<lparr>BedrockDeploymentsJSON := Some []\<rparr>))) = None
   \<and> BedrockKeyConfig (fst (TableKey_AfterFind example_json
      (scanned (empty_row\<lparr>BedrockDeploymentsJSON := Some []\<rparr>)))) = None"
  by (simp add: TableKey_AfterFind_def AfterFind_Models_def AfterFind_Azure_def
      AfterFind_Vertex_def AfterFind_Bedrock_def AfterFind_Apertus_def andThen_simps
      empty_row_def scanned_def)

text \<open>
  C8, amended. For a row as a query scans it, when the read succeeds: the Azure override is
  reconstructed exactly when the endpoint column is not null; the Vertex override exactly
  when one of its three columns is not null; the Bedrock override exactly when one of its
  five plain columns is not null or its deployments column is neither null nor the empty
  text; the Apertus override exactly when its endpoint column is not null. When the read
  fails, the error is the one of the model list or of the deployments column of a group that
  is being reconstructed, and the override of that group and of the groups after it stay
  nil. A deployments column that does not deserialize makes the read fail whenever its group
  is being reconstructed.
\<close>

theorem AfterFind_reconstruction:
  "(\<forall>r'. TableKey_AfterFind J (scanned r) = (r', None) \<longrightarrow>
      (AzureKeyConfig r' \<noteq> None \<longleftrightarrow> AzureEndpoint r \<noteq> None)
    \<and> (VertexKeyConfig r' \<noteq> None \<longleftrightarrow>
         VertexProjectID r \<noteq> None \<or> VertexRegion r \<noteq> None \<or> VertexAuthCredentials r \<noteq> None)
    \<and> (BedrockKeyConfig r' \<noteq> None \<longleftrightarrow>
         BedrockAccessKey r \<noteq> None \<or> BedrockSecretKey r \<noteq> None
         \<or> BedrockSessionToken r \<noteq> None \<or> BedrockRegion r \<noteq> None \<or> BedrockARN r \<noteq> None
         \<or> (case BedrockDeploymentsJSON r of Some js \<Rightarrow> js \<noteq> [] | None \<Rightarrow> False))
    \<and> (TableKey.ApertusKeyConfig r' \<noteq> None \<longleftrightarrow> ApertusEndpoint r \<noteq> None))
   \<and> (\<forall>r' err. TableKey_AfterFind J (scanned r) = (r', Some err) \<longrightarrow>
        BedrockKeyConfig r' = None \<and> TableKey.ApertusKeyConfig r' = None
        \<and> ((ModelsJSON r \<noteq> []
              \<and> snd (json_Unmarshal_strings J (ModelsJSON r) None) = Some err
              \<and> AzureKeyConfig r' = None \<and> VertexKeyConfig r' = None)
            \<or> (AzureEndpoint r \<noteq> None
              \<and> (\<exists>js. AzureDeploymentsJSON r = Some js \<and> json_Unmarshal_map J js = Inl err)
              \<and> AzureKeyConfig r' = None \<and> VertexKeyConfig r' = None)
            \<or> ((BedrockAccessKey r \<noteq> None \<or> BedrockSecretKey r \<noteq> None
                  \<or> BedrockSessionToken r \<noteq> None \<or> BedrockRegion r \<noteq> None
                  \<or> BedrockARN r \<noteq> None
                  \<or> (case BedrockDeploymentsJSON r of Some js \<Rightarrow> js \<noteq> [] | None \<Rightarrow> False))
              \<and> (\<exists>js. BedrockDeploymentsJSON r = Some js
                       \<and> json_Unmarshal_map J js = Inl err))))
   \<and> (\<forall>js err. AzureEndpoint r \<noteq> None \<and> AzureDeploymentsJSON r = Some js
          \<and> json_Unmarshal_map J js = Inl err
        \<longrightarrow> snd (TableKey_AfterFind J (scanned r)) \<noteq> None)
   \<and> (\<forall>js err. (BedrockAccessKey r \<noteq> None \<or> BedrockSecretKey r \<noteq> None
                  \<or> BedrockSessionToken r \<noteq> None \<or> BedrockRegion r \<noteq> None
                  \<or> BedrockARN r \<noteq> None \<or> js \<noteq> [])
          \<and> BedrockDeploymentsJSON r = Some js \<and> json_Unmarshal_map J js = Inl err
        \<longrightarrow> snd (TableKey_AfterFind J (scanned r)) \<noteq> None)"
proof (intro conjI allI impI)
  fix r'
  assume ok: "TableKey_AfterFind J (scanned r) = (r', None)"
  note f = AfterFind_ok_fields [OF ok]
  show "AzureKeyConfig r' \<noteq> None \<longleftrightarrow> AzureEndpoint r \<noteq> None"
    using azure_decoded_scanned(1) [OF f(1)] .
  show "VertexKeyConfig r' \<noteq> None \<longleftrightarrow>
         VertexProjectID r \<noteq> None \<or> VertexRegion r \<noteq> None \<or> VertexAuthCredentials r \<noteq> None"
    unfolding f(2) by (rule vertex_decoded_scanned)
  show "BedrockKeyConfig r' \<noteq> None \<longleftrightarrow>
         BedrockAccessKey r \<noteq> None \<or> BedrockSecretKey r \<noteq> None
         \<or> BedrockSessionToken r \<noteq> None \<or> BedrockRegion r \<noteq> None \<or> BedrockARN r \<noteq> None
         \<or> (case BedrockDeploymentsJSON r of Some js \<Rightarrow> js \<noteq> [] | None \<Rightarrow> False)"
    using bedrock_decoded_scanned(1) [OF f(3)] unfolding bedrock_present_def .
  show "TableKey.ApertusKeyConfig r' \<noteq> None \<longleftrightarrow> ApertusEndpoint r \<noteq> None"
    unfolding f(4) by (rule apertus_decoded_scanned)
next
  fix r' err
  assume failed: "TableKey_AfterFind J (scanned r) = (r', Some err)"
  note c = AfterFind_failed_cases [OF failed, unfolded scanned_virtuals
      azure_decoded_scanned(2) bedrock_decoded_scanned(2) models_decoded_scanned
      bedrock_present_def]
  from c show "BedrockKeyConfig r' = None" and "TableKey.ApertusKeyConfig r' = None"
    by simp_all
  from c show "(ModelsJSON r \<noteq> []
              \<and> snd (json_Unmarshal_strings J (ModelsJSON r) None) = Some err
              \<and> AzureKeyConfig r' = None \<and> VertexKeyConfig r' = None)
            \<or> (AzureEndpoint r \<noteq> None
              \<and> (\<exists>js. AzureDeploymentsJSON r = Some js \<and> json_Unmarshal_map J js = Inl err)
              \<and> AzureKeyConfig r' = None \<and> VertexKeyConfig r' = None)
            \<or> ((BedrockAccessKey r \<noteq> None \<or> BedrockSecretKey r \<noteq> None
                  \<or> BedrockSessionToken r \<noteq> None \<or> BedrockRegion r \<noteq> None
                  \<or> BedrockARN r \<noteq> None
                  \<or> (case BedrockDeploymentsJSON r of Some js \<Rightarrow> js \<noteq> [] | None \<Rightarrow> False))
              \<and> (\<exists>js. BedrockDeploymentsJSON r = Some js
                       \<and> json_Unmarshal_map J js = Inl err))"
    by (elim conjE disjE) (simp_all split: if_splits)
next
  fix js err
  assume a: "AzureEndpoint r \<noteq> None \<and> AzureDeploymentsJSON r = Some js
          \<and> json_Unmarshal_map J js = Inl err"
  then have "azure_decoded J (scanned r) = Inl err"
    by (simp add: azure_decoded_scanned(2))
  then show "snd (TableKey_AfterFind J (scanned r)) \<noteq> None"
    by (intro AfterFind_fails_if [of J "scanned r" err]) simp
next
  fix js err
  assume a: "(BedrockAccessKey r \<noteq> None \<or> BedrockSecretKey r \<noteq> None
                  \<or> BedrockSessionToken r \<noteq> None \<or> BedrockRegion r \<noteq> None
                  \<or> BedrockARN r \<noteq> None \<or> js \<noteq> [])
          \<and> BedrockDeploymentsJSON r = Some js \<and> json_Unmarshal_map J js = Inl err"
  then have "bedrock_present r"
    by (auto simp: bedrock_present_def)
  with a have "bedrock_decoded J (scanned r) = Inl err"
    by (simp add: bedrock_decoded_scanned(2))
  then show "snd (TableKey_AfterFind J (scanned r)) \<noteq> None"
    by (intro AfterFind_fails_if [of J "scanned r" err]) simp
qed

theorem AfterFind_reconstruction_witness:
  "VertexKeyConfig (fst (TableKey_AfterFind example_json
      (scanned (empty_row\<lparr>VertexRegion := Some ''us-central1''\<rparr>))))
     \<noteq> None
   \<and> snd (TableKey_AfterFind example_json
      (scanned (empty_row\<lparr>AzureEndpoint := Some ''https://azure.example.com'',
                          AzureDeploymentsJSON := Some ''{gpt-4o''\<rparr>)))
     \<noteq> None
   \<and> snd (TableKey_AfterFind example_json
      (scanned (empty_row\<lparr>BedrockRegion := Some ''us-east-1'',
                          BedrockDeploymentsJSON := Some ''{gpt-4o''\<rparr>)))
     = Some (Error ''invalid character'')
   \<and> BedrockKeyConfig (fst (TableKey_AfterFind example_json
      (scanned (empty_row\<lparr>BedrockRegion := Some ''us-east-1'',
                          BedrockDeploymentsJSON := Some ''{gpt-4o''\<rparr>))))
     = None"
proof -
  let ?v = "empty_row\<lparr>VertexRegion := Some ''us-central1''\<rparr>"
  let ?a = "empty_row\<lparr>AzureEndpoint := Some ''https://azure.example.com'',
                       AzureDeploymentsJSON := Some ''{gpt-4o''\<rparr>"
  let ?b = "empty_row\<lparr>BedrockRegion := Some ''us-east-1'',
                       BedrockDeploymentsJSON := Some ''{gpt-4o''\<rparr>"
  have bad: "json_Unmarshal_map example_json ''{gpt-4o'' = Inl (Error ''invalid character'')"
    by (simp add: example_json_def)
  have v_ok: "TableKey_AfterFind example_json (scanned ?v)
      = (fst (TableKey_AfterFind example_json (scanned ?v)), None)"
    by (simp add: TableKey_AfterFind_def AfterFind_Models_def AfterFind_Azure_def
        AfterFind_Vertex_def AfterFind_Bedrock_def AfterFind_Apertus_def andThen_simps
        empty_row_def scanned_def)
  have b_failed: "TableKey_AfterFind example_json (scanned ?b)
      = (fst (TableKey_AfterFind example_json (scanned ?b)), Some (Error ''invalid character''))"
    by (simp add: TableKey_AfterFind_def AfterFind_Models_def AfterFind_Azure_def
        AfterFind_Vertex_def AfterFind_Bedrock_def AfterFind_Apertus_def andThen_simps
        empty_row_def scanned_def bad)
  have v: "VertexKeyConfig (fst (TableKey_AfterFind example_json (scanned ?v))) \<noteq> None"
    using AfterFind_reconstruction [of example_json ?v] v_ok
    by (simp add: empty_row_def)
  have a: "snd (TableKey_AfterFind example_json (scanned ?a)) \<noteq> None"
    using AfterFind_reconstruction [of example_json ?a] bad
    by (simp add: empty_row_def)
  have b: "BedrockKeyConfig (fst (TableKey_AfterFind example_json (scanned ?b))) = None"
    using AfterFind_reconstruction [of example_json ?b] b_failed
    by blast
  have b': "snd (TableKey_AfterFind example_json (scanned ?b))
      = Some (Error ''invalid character'')"
    using b_failed by (metis snd_conv)
  show ?thesis
    using v a b b' by blast
qed

section \<open>Cleared fields of the provider table\<close>

lemma TableProvider_BeforeSave_columns:
  "TableProvider.NetworkConfig p = None \<Longrightarrow>
     NetworkConfigJSON (fst (TableProvider_BeforeSave J p)) = NetworkConfigJSON p"
  "ConcurrencyAndBufferSize p = None \<Longrightarrow>
     ConcurrencyBufferJSON (fst (TableProvider_BeforeSave J p)) = ConcurrencyBufferJSON p"
  "ProxyConfig p = None \<Longrightarrow>
     ProxyConfigJSON (fst (TableProvider_BeforeSave J p)) = ProxyConfigJSON p"
  "TableProvider.CustomProviderConfig p = None \<Longrightarrow>
     CustomProviderConfigJSON (fst (TableProvider_BeforeSave J p)) = CustomProviderConfigJSON p"
  by (simp_all add: TableProvider_BeforeSave_def andThen_def
      split: option.splits sum.splits prod.splits)

lemma TableProvider_AfterFind_fields:
  assumes "TableProvider_AfterFind J q = (q', None)"
  shows "NetworkConfigJSON q \<noteq> [] \<longrightarrow>
      (\<exists>c. Unmarshal_NetworkConfig J (NetworkConfigJSON q) = Inr c
         \<and> TableProvider.NetworkConfig q' = Some c)"
    and "ConcurrencyBufferJSON q \<noteq> [] \<longrightarrow>
      (\<exists>c. Unmarshal_ConcurrencyAndBufferSize J (ConcurrencyBufferJSON q) = Inr c
         \<and> ConcurrencyAndBufferSize q' = Some c)"
    and "ProxyConfigJSON q \<noteq> [] \<longrightarrow>
      (\<exists>c. Unmarshal_ProxyConfig J (ProxyConfigJSON q) = Inr c \<and> ProxyConfig q' = Some c)"
    and "CustomProviderConfigJSON q \<noteq> [] \<longrightarrow>
      (\<exists>c. Unmarshal_CustomProviderConfig J (CustomProviderConfigJSON q) = Inr c
         \<and> TableProvider.CustomProviderConfig q' = Some c)"
  using assms
  by (auto simp: TableProvider_AfterFind_def andThen_def
      split: option.splits sum.splits prod.splits if_splits)

lemma scanned_provider_columns:
  "NetworkConfigJSON (scanned_provider p) = NetworkConfigJSON p"
  "ConcurrencyBufferJSON (scanned_provider p) = ConcurrencyBufferJSON p"
  "ProxyConfigJSON (scanned_provider p) = ProxyConfigJSON p"
  "CustomProviderConfigJSON (scanned_provider p) = CustomProviderConfigJSON p"
  by (simp_all add: scanned_provider_def)

lemma TableKey_BeforeSave_absent:
  assumes "TableKey_BeforeSave J k = (k', None)"
  shows "AzureKeyConfig k = None \<longrightarrow>
      AzureEndpoint k' = None \<and> AzureAPIVersion k' = None \<and> AzureDeploymentsJSON k' = None"
    and "VertexKeyConfig k = None \<longrightarrow>
      VertexProjectID k' = None \<and> VertexRegion k' = None \<and> VertexAuthCredentials k' = None"
    and "BedrockKeyConfig k = None \<longrightarrow>
      BedrockAccessKey k' = None \<and> BedrockSecretKey k' = None \<and> BedrockSessionToken k' = None
      \<and> BedrockRegion k' = None \<and> BedrockARN k' = None \<and> BedrockDeploymentsJSON k' = None"
    and "TableKey.ApertusKeyConfig k = None \<longrightarrow> ApertusEndpoint k' = None"
proof -
  from assms have "snd (TableKey_BeforeSave J k) = None"
    by simp
  then obtain mj ad bd where mj: "models_encoded J k = Inr mj"
    and ad: "deployments_encoded (json_Marshal_map J)
           (Option.bind (AzureKeyConfig k) AzureKeyConfig.Deployments) = Inr ad"
    and bd: "deployments_encoded (sonic_Marshal_map J)
           (Option.bind (BedrockKeyConfig k) BedrockKeyConfig.Deployments) = Inr bd"
    unfolding TableKey_BeforeSave_None_iff by blast
  note k' = assms [unfolded TableKey_BeforeSave_success [OF mj ad bd], simplified, symmetric]
  have a: "AzureKeyConfig k = None \<Longrightarrow> ad = None"
    using ad by (simp add: deployments_encoded_def)
  have b: "BedrockKeyConfig k = None \<Longrightarrow> bd = None"
    using bd by (simp add: deployments_encoded_def)
  show "AzureKeyConfig k = None \<longrightarrow>
      AzureEndpoint k' = None \<and> AzureAPIVersion k' = None \<and> AzureDeploymentsJSON k' = None"
    using a by (simp add: k')
  show "VertexKeyConfig k = None \<longrightarrow>
      VertexProjectID k' = None \<and> VertexRegion k' = None \<and> VertexAuthCredentials k' = None"
    by (simp add: k')
  show "BedrockKeyConfig k = None \<longrightarrow>
      BedrockAccessKey k' = None \<and> BedrockSecretKey k' = None \<and> BedrockSessionToken k' = None
      \<and> BedrockRegion k' = None \<and> BedrockARN k' = None \<and> BedrockDeploymentsJSON k' = None"
    using b by (simp add: k')
  show "TableKey.ApertusKeyConfig k = None \<longrightarrow> ApertusEndpoint k' = None"
    by (simp add: k')
qed

text \<open>
  C10. In the provider table, a virtual field that is nil when the row is saved leaves its
  JSON column as it was, whether the hook returns an error or not. When the saved columns
  are then read into a fresh row and the read succeeds, every cleared field whose column is
  not empty holds again the configuration that the column deserializes to. In the key
  table, a save that succeeds with an absent override sets every column of its group to
  null.
\<close>

theorem nil_field_keeps_stored_column:
  "(\<forall>p' e. TableProvider_BeforeSave J p = (p', e) \<longrightarrow>
      (TableProvider.NetworkConfig p = None \<longrightarrow> NetworkConfigJSON p' = NetworkConfigJSON p)
    \<and> (ConcurrencyAndBufferSize p = None \<longrightarrow>
          ConcurrencyBufferJSON p' = ConcurrencyBufferJSON p)
    \<and> (ProxyConfig p = None \<longrightarrow> ProxyConfigJSON p' = ProxyConfigJSON p)
    \<and> (TableProvider.CustomProviderConfig p = None \<longrightarrow>
          CustomProviderConfigJSON p' = CustomProviderConfigJSON p)
    \<and> (\<forall>p''. TableProvider_AfterFind J (scanned_provider p') = (p'', None) \<longrightarrow>
          (TableProvider.NetworkConfig p = None \<and> NetworkConfigJSON p \<noteq> [] \<longrightarrow>
            (\<exists>c. Unmarshal_NetworkConfig J (NetworkConfigJSON p) = Inr c
               \<and> TableProvider.NetworkConfig p'' = Some c))
        \<and> (ConcurrencyAndBufferSize p = None \<and> ConcurrencyBufferJSON p \<noteq> [] \<longrightarrow>
            (\<exists>c. Unmarshal_ConcurrencyAndBufferSize J (ConcurrencyBufferJSON p) = Inr c
               \<and> ConcurrencyAndBufferSize p'' = Some c))
        \<and> (ProxyConfig p = None \<and> ProxyConfigJSON p \<noteq> [] \<longrightarrow>
            (\<exists>c. Unmarshal_ProxyConfig J (ProxyConfigJSON p) = Inr c
               \<and> ProxyConfig p'' = Some c))
        \<and> (TableProvider.CustomProviderConfig p = None \<and> CustomProviderConfigJSON p \<noteq> [] \<longrightarrow>
            (\<exists>c. Unmarshal_CustomProviderConfig J (CustomProviderConfigJSON p) = Inr c
               \<and> TableProvider.CustomProviderConfig p'' = Some c))))
   \<and> (\<forall>k'. TableKey_BeforeSave JK k = (k', None) \<longrightarrow>
        (AzureKeyConfig k = None \<longrightarrow>
          AzureEndpoint k' = None \<and> AzureAPIVersion k' = None \<and> AzureDeploymentsJSON k' = None)
      \<and> (VertexKeyConfig k = None \<longrightarrow>
          VertexProjectID k' = None \<and> VertexRegion k' = None \<and> VertexAuthCredentials k' = None)
      \<and> (BedrockKeyConfig k = None \<longrightarrow>
          BedrockAccessKey k' = None \<and> BedrockSecretKey k' = None
          \<and> BedrockSessionToken k' = None \<and> BedrockRegion k' = None \<and> BedrockARN k' = None
          \<and> BedrockDeploymentsJSON k' = None)
      \<and> (TableKey.ApertusKeyConfig k = None \<longrightarrow> ApertusEndpoint k' = None))"
proof (intro conjI allI impI)
  fix k'
  assume save: "TableKey_BeforeSave JK k = (k', None)"
  note absent = TableKey_BeforeSave_absent [OF save]
  show "AzureKeyConfig k = None \<Longrightarrow> AzureEndpoint k' = None"
    and "AzureKeyConfig k = None \<Longrightarrow> AzureAPIVersion k' = None"
    and "AzureKeyConfig k = None \<Longrightarrow> AzureDeploymentsJSON k' = None"
    using absent(1) by simp_all
  show "VertexKeyConfig k = None \<Longrightarrow> VertexProjectID k' = None"
    and "VertexKeyConfig k = None \<Longrightarrow> VertexRegion k' = None"
    and "VertexKeyConfig k = None \<Longrightarrow> VertexAuthCredentials k' = None"
    using absent(2) by simp_all
  show "BedrockKeyConfig k = None \<Longrightarrow> BedrockAccessKey k' = None"
    and "BedrockKeyConfig k = None \<Longrightarrow> BedrockSecretKey k' = None"
    and "BedrockKeyConfig k = None \<Longrightarrow> BedrockSessionToken k' = None"
    and "BedrockKeyConfig k = None \<Longrightarrow> BedrockRegion k' = None"
    and "BedrockKeyConfig k = None \<Longrightarrow> BedrockARN k' = None"
    and "BedrockKeyConfig k = None \<Longrightarrow> BedrockDeploymentsJSON k' = None"
    using absent(3) by simp_all
  show "TableKey.ApertusKeyConfig k = None \<Longrightarrow> ApertusEndpoint k' = None"
    using absent(4) by simp
next
  fix p' e
  assume save: "TableProvider_BeforeSave J p = (p', e)"
  then have p': "p' = fst (TableProvider_BeforeSave J p)"
    by simp
  show n: "TableProvider.NetworkConfig p = None \<Longrightarrow> NetworkConfigJSON p' = NetworkConfigJSON p"
    unfolding p' by (rule TableProvider_BeforeSave_columns)
  show c: "ConcurrencyAndBufferSize p = None \<Longrightarrow>
      ConcurrencyBufferJSON p' = ConcurrencyBufferJSON p"
    unfolding p' by (rule TableProvider_BeforeSave_columns)
  show x: "ProxyConfig p = None \<Longrightarrow> ProxyConfigJSON p' = ProxyConfigJSON p"
    unfolding p' by (rule TableProvider_BeforeSave_columns)
  show u: "TableProvider.CustomProviderConfig p = None \<Longrightarrow>
      CustomProviderConfigJSON p' = CustomProviderConfigJSON p"
    unfolding p' by (rule TableProvider_BeforeSave_columns)
  fix p''
  assume find: "TableProvider_AfterFind J (scanned_provider p') = (p'', None)"
  note f = TableProvider_AfterFind_fields [OF find, unfolded scanned_provider_columns]
  show "\<exists>c. Unmarshal_NetworkConfig J (NetworkConfigJSON p) = Inr c
           \<and> TableProvider.NetworkConfig p'' = Some c"
    if "TableProvider.NetworkConfig p = None \<and> NetworkConfigJSON p \<noteq> []"
    using that f(1) n by simp
  show "\<exists>c. Unmarshal_ConcurrencyAndBufferSize J (ConcurrencyBufferJSON p) = Inr c
           \<and> ConcurrencyAndBufferSize p'' = Some c"
    if "ConcurrencyAndBufferSize p = None \<and> ConcurrencyBufferJSON p \<noteq> []"
    using that f(2) c by simp
  show "\<exists>c. Unmarshal_ProxyConfig J (ProxyConfigJSON p) = Inr c \<and> ProxyConfig p'' = Some c"
    if "ProxyConfig p = None \<and> ProxyConfigJSON p \<noteq> []"
    using that f(3) x by simp
  show "\<exists>c. Unmarshal_CustomProviderConfig J (CustomProviderConfigJSON p) = Inr c
           \<and> TableProvider.CustomProviderConfig p'' = Some c"
    if "TableProvider.CustomProviderConfig p = None \<and> CustomProviderConfigJSON p \<noteq> []"
    using that f(4) u by simp
qed

theorem nil_field_keeps_stored_column_witness:
  "TableProvider_BeforeSave example_provider_json cleared_provider = (cleared_provider, None)
   \<and> snd (TableProvider_AfterFind example_provider_json (scanned_provider cleared_provider))
       = None
   \<and> TableProvider.NetworkConfig (fst (TableProvider_AfterFind example_provider_json
         (scanned_provider cleared_provider)))
       = Some \<lparr>BaseURL = ''https://api.example.com'', ExtraHeaders = None,
                DefaultRequestTimeoutInSeconds = 0, MaxRetries = 0,
                RetryBackoffInitial = 0, RetryBackoffMax = 0\<rparr>
   \<and> TableProvider.CustomProviderConfig (fst (TableProvider_AfterFind example_provider_json
         (scanned_provider cleared_provider)))
       = Some \<lparr>CustomProviderKey = [], BaseProviderType = ''openai'',
                RequestPathOverrides = None\<rparr>
   \<and> AzureEndpoint (fst (TableKey_BeforeSave example_json
         (empty_row\<lparr>AzureEndpoint := Some ''https://azure.example.com'',
                     AzureAPIVersion := Some ''2024-02-01''\<rparr>))) = None
   \<and> AzureAPIVersion (fst (TableKey_BeforeSave example_json
         (empty_row\<lparr>AzureEndpoint := Some ''https://azure.example.com'',
                     AzureAPIVersion := Some ''2024-02-01''\<rparr>))) = None"
proof -
  let ?k = "empty_row\<lparr>AzureEndpoint := Some ''https://azure.example.com'',
                       AzureAPIVersion := Some ''2024-02-01''\<rparr>"
  define q where "q = fst (TableProvider_AfterFind example_provider_json
      (scanned_provider cleared_provider))"
  define k1 where "k1 = fst (TableKey_BeforeSave example_json ?k)"
  have save: "TableProvider_BeforeSave example_provider_json cleared_provider
      = (cleared_provider, None)"
    by (simp add: TableProvider_BeforeSave_def andThen_simps cleared_provider_def)
  have find: "TableProvider_AfterFind example_provider_json (scanned_provider cleared_provider)
      = (q, None)"
    unfolding q_def
    by (simp add: TableProvider_AfterFind_def andThen_simps cleared_provider_def
        scanned_provider_def example_provider_json_def)
  have ksave: "TableKey_BeforeSave example_json ?k = (k1, None)"
    unfolding k1_def
    by (simp add: TableKey_BeforeSave_def BeforeSave_Models_def BeforeSave_Azure_def
        BeforeSave_Vertex_def BeforeSave_Bedrock_def BeforeSave_Apertus_def andThen_simps
        empty_row_def)
  have n: "Unmarshal_NetworkConfig example_provider_json (NetworkConfigJSON cleared_provider)
      = Inr \<lparr>BaseURL = ''https://api.example.com'', ExtraHeaders = None,
               DefaultRequestTimeoutInSeconds = 0, MaxRetries = 0,
               RetryBackoffInitial = 0, RetryBackoffMax = 0\<rparr>"
    by (simp add: example_provider_json_def cleared_provider_def)
  have c: "Unmarshal_CustomProviderConfig example_provider_json
        (CustomProviderConfigJSON cleared_provider)
      = Inr \<lparr>CustomProviderKey = [], BaseProviderType = ''openai'',
               RequestPathOverrides = None\<rparr>"
    by (simp add: example_provider_json_def cleared_provider_def)
  have nil: "TableProvider.NetworkConfig cleared_provider = None"
      "TableProvider.CustomProviderConfig cleared_provider = None"
      "NetworkConfigJSON cleared_provider \<noteq> []"
      "CustomProviderConfigJSON cleared_provider \<noteq> []"
    by (simp_all add: cleared_provider_def)
  have knil: "AzureKeyConfig ?k = None"
    by (simp add: empty_row_def)
  note T = nil_field_keeps_stored_column [of example_provider_json cleared_provider
      example_json ?k]
  note P = T [THEN conjunct1, THEN spec, THEN spec, THEN mp, OF save]
  note F = P [THEN conjunct2, THEN conjunct2, THEN conjunct2, THEN conjunct2,
      THEN spec, THEN mp, OF find]
  have r1: "TableProvider.NetworkConfig q
       = Some \<lparr>BaseURL = ''https://api.example.com'', ExtraHeaders = None,
                DefaultRequestTimeoutInSeconds = 0, MaxRetries = 0,
                RetryBackoffInitial = 0, RetryBackoffMax = 0\<rparr>"
    using F [THEN conjunct1, THEN mp, OF conjI [OF nil(1) nil(3)]] unfolding n by auto
  have r2: "TableProvider.CustomProviderConfig q
       = Some \<lparr>CustomProviderKey = [], BaseProviderType = ''openai'',
                RequestPathOverrides = None\<rparr>"
    using F [THEN conjunct2, THEN conjunct2, THEN conjunct2, THEN mp,
        OF conjI [OF nil(2) nil(4)]] unfolding c by auto
  note K = T [THEN conjunct2, THEN spec, THEN mp, OF ksave, THEN conjunct1, THEN mp, OF knil]
  have s: "snd (TableProvider_AfterFind example_provider_json
      (scanned_provider cleared_provider)) = None"
    unfolding find by simp
  show ?thesis
    using save s r1 r2 K unfolding q_def k1_def by (intro conjI) simp_all
qed

end
